theory Spec2Isabelle
  imports Main "HOL-Library.Word"
begin

section \<open>Data model of the escrow client (ethereum/oneinch/escrow\_integration.go)\<close>

text \<open>
  \<open>common.Address\<close> is a 20-byte array and a commitment a 32-byte array: fixed-width
  words, read big-endian. The zero address \<open>common.Address{}\<close> is the word 0.
  A \<open>*big.Int\<close> is a pointer to an unbounded integer: \<open>None\<close> is the nil pointer.
\<close>

type_synonym address = "160 word"
type_synonym bytes32 = "256 word"
type_synonym bytes = "8 word list"
type_synonym uint64 = "64 word"
type_synonym uint8 = "8 word"
type_synonym bigint = "int option"

text \<open>
  Errors of go-ethereum and of the node (transport failures, reverts reported by the
  node, ABI encoding and decoding failures) are values created outside this package; they
  are identified here by their message. The package's own error values are the eleven
  sentinels of its \<open>var\<close> block and the results of \<open>errors.New\<close> and \<open>fmt.Errorf\<close>.
  An error handed through by \<open>return nil, err\<close> keeps its identity: an external error is
  never equal to a sentinel of this package. \<open>Panic\<close> is a run-time panic (a nil
  dereference), not a returned value.
\<close>

type_synonym ext_error = string

datatype error =
    ErrInvalidAddress
  | ErrTransactionFailed
  | ErrContractNotFound
  | ErrInvalidSwapParams
  | ErrInsufficientFunds
  | ErrSwapAlreadyExists
  | ErrSwapDoesNotExist
  | ErrInvalidSwapState
  | ErrInvalidSecret
  | ErrTimeoutNotReached
  | ErrTimeoutExceeded
  | ErrorString string
  | ErrorWrap string error
  | ExtError ext_error
  | Panic string

text \<open>The on-chain swap record \<open>contracts.SwapCreatorSwap\<close>: a generated binding whose
  declaration is not among the sources. The conversion reads the seven fields below; the
  record is extensible, so every statement about it holds for a struct with further
  fields.\<close>

record SwapCreatorSwap =
  Claimer :: address
  ClaimCommitment :: bytes32
  RefundCommitment :: bytes32
  Timeout1 :: bigint
  Timeout2 :: bigint
  Asset :: address
  Value :: bigint

text \<open>\<open>bind.TransactOpts\<close>: the fields \<open>getAuth\<close> and \<open>CreateSwap\<close> write, and the
  sender. A \<open>nil\<close> value-to-send is sent as 0 by go-ethereum.\<close>

record TransactOpts =
  From :: address
  Nonce :: bigint
  Value :: bigint
  GasPrice :: bigint
  GasLimit :: uint64

record SwapParams =
  Claimer :: address
  ClaimCommitment :: bytes32
  RefundCommitment :: bytes32
  Timeout1 :: bigint
  Timeout2 :: bigint
  Asset :: address
  Value :: bigint

text \<open>\<open>ethereum.CallMsg\<close>, with the two fields the client sets.\<close>

record CallMsg =
  To :: "address option"
  Data :: bytes

text \<open>\<open>types.Transaction\<close>: the handle of a broadcast transaction.\<close>

record Transaction =
  txTo :: address
  txNonce :: uint64
  txValue :: int
  txGas :: uint64
  txGasPrice :: int
  txData :: bytes

text \<open>An ABI is the table of its methods: name, named inputs, outputs and mutability,
  as listed in the JSON text of the three loaders.\<close>

datatype abi_method =
  Method (m_name: string) (m_inputs: "(string \<times> string) list") (m_outputs: "string list")
    (m_mutability: string)

type_synonym abi = "abi_method list"

text \<open>The arguments handed to \<open>abi.Pack\<close> and \<open>Transact\<close>.\<close>

datatype abi_value = VAddress address | VBytes32 bytes32 | VBigInt bigint

type_synonym private_key = nat

datatype SwapCreator = SwapCreator address

subsection \<open>The node behind the network handle\<close>

text \<open>
  Every request the client issues through its network handle is recorded in a log. The
  node answers a request as a function of the log so far and of the request, which covers
  a node whose answers change as its chain advances. \<open>EvTransact\<close> is a submission
  through \<open>bind.BoundContract.Transact\<close>: contract address, ABI, signing context,
  method and arguments.
\<close>

datatype event =
    EvPendingNonceAt address
  | EvSuggestGasPrice
  | EvChainID
  | EvCallContract "CallMsg"
  | EvTransact address abi "TransactOpts" string "abi_value list"

record node =
  PendingNonceAt :: "event list \<Rightarrow> address \<Rightarrow> ext_error + uint64"
  SuggestGasPrice :: "event list \<Rightarrow> ext_error + int"
  ChainID :: "event list \<Rightarrow> ext_error + int"
  CallContract :: "event list \<Rightarrow> CallMsg \<Rightarrow> ext_error + bytes"
  Transact :: "event list \<Rightarrow> address \<Rightarrow> abi \<Rightarrow> TransactOpts \<Rightarrow> string \<Rightarrow> abi_value list
    \<Rightarrow> ext_error + Transaction"

text \<open>The pure functions of go-ethereum the client calls; they are parameters of the
  model, so every theorem holds for whatever they compute.\<close>

record lib =
  PubkeyToAddress :: "private_key \<Rightarrow> address"
  NewKeyedTransactorWithChainID :: "private_key \<Rightarrow> int \<Rightarrow> ext_error + TransactOpts"
  Pack :: "abi \<Rightarrow> string \<Rightarrow> abi_value list \<Rightarrow> ext_error + bytes"
  UnpackAddress :: "abi \<Rightarrow> string \<Rightarrow> bytes \<Rightarrow> ext_error + address"
  UnpackUint8 :: "abi \<Rightarrow> string \<Rightarrow> bytes \<Rightarrow> ext_error + uint8"
  JSON :: "abi \<Rightarrow> ext_error + abi"

text \<open>
  \<open>XMREscrowClient\<close>. Its fields are unexported and \<open>NewXMREscrowClient\<close>, the only
  constructor, rejects a nil handle, registry or key: the record stores them unwrapped.
\<close>

record XMREscrowClient =
  client :: node
  factoryAddress :: address
  adapterAddress :: address
  swapCreator :: SwapCreator
  privateKey :: private_key
  escrowSrcABI :: abi
  escrowFactoryABI :: abi
  swapAdapterABI :: abi

section \<open>The signing context\<close>

text \<open>\<open>getAuth\<close>: three reads through the handle, each of which may fail, then the
  signer; \<open>int64(nonce)\<close> reinterprets the 64 bits of the nonce as a signed value.\<close>

definition getAuth ::
  "lib \<Rightarrow> XMREscrowClient \<Rightarrow> event list \<Rightarrow> (error + TransactOpts) \<times> event list" where
  "getAuth L c h =
    (let sender = PubkeyToAddress L (privateKey c);
         h1 = h @ [EvPendingNonceAt sender] in
     case PendingNonceAt (client c) h sender of
       Inl err \<Rightarrow> (Inl (ExtError err), h1)
     | Inr nonce \<Rightarrow>
        (let h2 = h1 @ [EvSuggestGasPrice] in
         case SuggestGasPrice (client c) h1 of
           Inl err \<Rightarrow> (Inl (ExtError err), h2)
         | Inr gasPrice \<Rightarrow>
            (let h3 = h2 @ [EvChainID] in
             case ChainID (client c) h2 of
               Inl err \<Rightarrow> (Inl (ExtError err), h3)
             | Inr chainID \<Rightarrow>
                (case NewKeyedTransactorWithChainID L (privateKey c) chainID of
                   Inl err \<Rightarrow> (Inl (ExtError err), h3)
                 | Inr auth \<Rightarrow>
                    (Inr (auth\<lparr>Nonce := Some (sint nonce),
                               TransactOpts.Value := Some 0,
                               GasLimit := 300000,
                               GasPrice := Some gasPrice\<rparr>), h3)))))"

section \<open>Address resolution and the four operations\<close>

text \<open>\<open>calculateEscrowAddress\<close>: pack the call, execute it as a read against the factory,
  unpack one address. A failed \<open>Pack\<close> returns before the handle is used.\<close>

definition calculateEscrowAddress ::
  "lib \<Rightarrow> XMREscrowClient \<Rightarrow> event list \<Rightarrow> SwapParams \<Rightarrow> (error + address) \<times> event list" where
  "calculateEscrowAddress L c h params =
    (case Pack L (escrowFactoryABI c) ''calculateEscrowAddress''
            [VAddress (adapterAddress c),
             VAddress (SwapParams.Claimer params),
             VBytes32 (SwapParams.ClaimCommitment params),
             VBytes32 (SwapParams.RefundCommitment params),
             VBigInt (SwapParams.Timeout1 params),
             VBigInt (SwapParams.Timeout2 params),
             VAddress (SwapParams.Asset params),
             VBigInt (SwapParams.Value params)] of
       Inl err \<Rightarrow> (Inl (ExtError err), h)
     | Inr data \<Rightarrow>
        (let callMsg = \<lparr>To = Some (factoryAddress c), Data = data\<rparr>;
             h1 = h @ [EvCallContract callMsg] in
         case CallContract (client c) h callMsg of
           Inl err \<Rightarrow> (Inl (ExtError err), h1)
         | Inr result \<Rightarrow>
            (case UnpackAddress L (escrowFactoryABI c) ''calculateEscrowAddress'' result of
               Inl err \<Rightarrow> (Inl (ExtError err), h1)
             | Inr escrowAddress \<Rightarrow> (Inr escrowAddress, h1))))"

text \<open>\<open>CreateSwap\<close> returns the Go triple \<open>(tx, address, err)\<close>: on every error path the
  transaction is nil and the address is \<open>common.Address{}\<close>.\<close>

definition CreateSwap ::
  "lib \<Rightarrow> XMREscrowClient \<Rightarrow> event list \<Rightarrow> SwapParams
    \<Rightarrow> (Transaction option \<times> address \<times> error option) \<times> event list" where
  "CreateSwap L c h params =
    (case getAuth L c h of (r, h1) \<Rightarrow>
      (case r of
         Inl err \<Rightarrow> ((None, 0, Some err), h1)
       | Inr auth0 \<Rightarrow>
          (let auth = (if SwapParams.Asset params = 0
                       then auth0\<lparr>TransactOpts.Value := SwapParams.Value params\<rparr>
                       else auth0) in
           case calculateEscrowAddress L c h1 params of (r2, h2) \<Rightarrow>
             (case r2 of
                Inl err \<Rightarrow> ((None, 0, Some err), h2)
              | Inr escrowAddress \<Rightarrow>
                 (let args = [VAddress (adapterAddress c),
                              VAddress (SwapParams.Claimer params),
                              VBytes32 (SwapParams.ClaimCommitment params),
                              VBytes32 (SwapParams.RefundCommitment params),
                              VBigInt (SwapParams.Timeout1 params),
                              VBigInt (SwapParams.Timeout2 params),
                              VAddress (SwapParams.Asset params),
                              VBigInt (SwapParams.Value params)];
                      h3 = h2 @ [EvTransact (factoryAddress c) (escrowFactoryABI c) auth
                                   ''deposit'' args] in
                  case Transact (client c) h2 (factoryAddress c) (escrowFactoryABI c) auth
                         ''deposit'' args of
                    Inl err \<Rightarrow> ((None, 0, Some (ExtError err)), h3)
                  | Inr tx \<Rightarrow> ((Some tx, escrowAddress, None), h3))))))"

definition ClaimSwap ::
  "lib \<Rightarrow> XMREscrowClient \<Rightarrow> event list \<Rightarrow> address \<Rightarrow> bytes32
    \<Rightarrow> (error + Transaction) \<times> event list" where
  "ClaimSwap L c h escrowAddress secret =
    (case getAuth L c h of (r, h1) \<Rightarrow>
      (case r of
         Inl err \<Rightarrow> (Inl err, h1)
       | Inr auth \<Rightarrow>
          (let h2 = h1 @ [EvTransact escrowAddress (escrowSrcABI c) auth ''withdraw''
                            [VBytes32 secret]] in
           case Transact (client c) h1 escrowAddress (escrowSrcABI c) auth ''withdraw''
                  [VBytes32 secret] of
             Inl err \<Rightarrow> (Inl (ExtError err), h2)
           | Inr tx \<Rightarrow> (Inr tx, h2))))"

definition RefundSwap ::
  "lib \<Rightarrow> XMREscrowClient \<Rightarrow> event list \<Rightarrow> address \<Rightarrow> bytes32
    \<Rightarrow> (error + Transaction) \<times> event list" where
  "RefundSwap L c h escrowAddress refundKey =
    (case getAuth L c h of (r, h1) \<Rightarrow>
      (case r of
         Inl err \<Rightarrow> (Inl err, h1)
       | Inr auth \<Rightarrow>
          (let h2 = h1 @ [EvTransact escrowAddress (escrowSrcABI c) auth ''refund''
                            [VBytes32 refundKey]] in
           case Transact (client c) h1 escrowAddress (escrowSrcABI c) auth ''refund''
                  [VBytes32 refundKey] of
             Inl err \<Rightarrow> (Inl (ExtError err), h2)
           | Inr tx \<Rightarrow> (Inr tx, h2))))"

text \<open>\<open>GetSwapState\<close> returns the decoded \<open>uint8\<close> as it is.\<close>

definition GetSwapState ::
  "lib \<Rightarrow> XMREscrowClient \<Rightarrow> event list \<Rightarrow> address \<Rightarrow> (error + uint8) \<times> event list" where
  "GetSwapState L c h escrowAddress =
    (case Pack L (escrowSrcABI c) ''getState'' [] of
       Inl err \<Rightarrow> (Inl (ExtError err), h)
     | Inr data \<Rightarrow>
        (let callMsg = \<lparr>To = Some escrowAddress, Data = data\<rparr>;
             h1 = h @ [EvCallContract callMsg] in
         case CallContract (client c) h callMsg of
           Inl err \<Rightarrow> (Inl (ExtError err), h1)
         | Inr result \<Rightarrow>
            (case UnpackUint8 L (escrowSrcABI c) ''getState'' result of
               Inl err \<Rightarrow> (Inl (ExtError err), h1)
             | Inr state \<Rightarrow> (Inr state, h1))))"

definition ConvertSwapCreatorSwapToParams :: "'a SwapCreatorSwap_scheme \<Rightarrow> SwapParams" where
  "ConvertSwapCreatorSwapToParams swap =
    \<lparr>Claimer = SwapCreatorSwap.Claimer swap,
     ClaimCommitment = SwapCreatorSwap.ClaimCommitment swap,
     RefundCommitment = SwapCreatorSwap.RefundCommitment swap,
     Timeout1 = SwapCreatorSwap.Timeout1 swap,
     Timeout2 = SwapCreatorSwap.Timeout2 swap,
     Asset = SwapCreatorSwap.Asset swap,
     Value = SwapCreatorSwap.Value swap\<rparr>"

section \<open>The ABI tables and the constructors\<close>

definition escrowSrcABIJSON :: abi where
  "escrowSrcABIJSON =
    [Method ''withdraw'' [(''_secret'', ''bytes32'')] [] ''nonpayable'',
     Method ''refund'' [(''_refundKey'', ''bytes32'')] [] ''nonpayable'',
     Method ''getState'' [] [''uint8''] ''view'']"

definition factoryInputs :: "(string \<times> string) list" where
  "factoryInputs =
    [(''_adapter'', ''address''), (''_claimer'', ''address''),
     (''_claimCommitment'', ''bytes32''), (''_refundCommitment'', ''bytes32''),
     (''_timeout1'', ''uint256''), (''_timeout2'', ''uint256''),
     (''_asset'', ''address''), (''_value'', ''uint256'')]"

definition escrowFactoryABIJSON :: abi where
  "escrowFactoryABIJSON =
    [Method ''calculateEscrowAddress'' factoryInputs [''address''] ''view'',
     Method ''deposit'' factoryInputs [''address''] ''payable'']"

definition swapAdapterABIJSON :: abi where
  "swapAdapterABIJSON =
    [Method ''createSwap'' (tl factoryInputs) [] ''payable'',
     Method ''claimSwap'' [(''_secret'', ''bytes32'')] [] ''nonpayable'',
     Method ''refundSwap'' [(''_refundKey'', ''bytes32'')] [] ''nonpayable'']"

definition loadEscrowSrcABI :: "lib \<Rightarrow> ext_error + abi" where
  "loadEscrowSrcABI L = JSON L escrowSrcABIJSON"

definition loadEscrowFactoryABI :: "lib \<Rightarrow> ext_error + abi" where
  "loadEscrowFactoryABI L = JSON L escrowFactoryABIJSON"

definition loadSwapAdapterABI :: "lib \<Rightarrow> ext_error + abi" where
  "loadSwapAdapterABI L = JSON L swapAdapterABIJSON"

text \<open>\<open>NewXMREscrowClient\<close>: the pointers may be nil (\<open>None\<close>); the five checks come
  first, in the order of the source, then the three ABI loaders.\<close>

definition NewXMREscrowClient ::
  "lib \<Rightarrow> node option \<Rightarrow> SwapCreator option \<Rightarrow> address \<Rightarrow> address \<Rightarrow> private_key option
    \<Rightarrow> error + XMREscrowClient" where
  "NewXMREscrowClient L client' swapCreator' factoryAddress' adapterAddress' privateKey' =
    (case client' of
       None \<Rightarrow> Inl (ErrorString ''ethclient is required'')
     | Some cl \<Rightarrow>
    (case swapCreator' of
       None \<Rightarrow> Inl (ErrorString ''swap creator is required'')
     | Some sc \<Rightarrow>
    (case privateKey' of
       None \<Rightarrow> Inl (ErrorString ''private key is required'')
     | Some pk \<Rightarrow>
       if factoryAddress' = 0 then Inl (ErrorString ''factory address is required'')
       else if adapterAddress' = 0 then Inl (ErrorString ''adapter address is required'')
       else
        (case loadEscrowSrcABI L of
           Inl err \<Rightarrow> Inl (ExtError err)
         | Inr srcABI \<Rightarrow>
        (case loadEscrowFactoryABI L of
           Inl err \<Rightarrow> Inl (ExtError err)
         | Inr factoryABI \<Rightarrow>
        (case loadSwapAdapterABI L of
           Inl err \<Rightarrow> Inl (ExtError err)
         | Inr adapterABI \<Rightarrow>
            Inr \<lparr>client = cl, factoryAddress = factoryAddress',
                 adapterAddress = adapterAddress', swapCreator = sc, privateKey = pk,
                 escrowSrcABI = srcABI, escrowFactoryABI = factoryABI,
                 swapAdapterABI = adapterABI\<rparr>))))))"

text \<open>\<open>extethclient.EthClient\<close> is an interface; the initialiser calls its two
  accessors. A nil interface value panics at the first call.\<close>

record EthClient =
  Raw :: "node option"
  PrivateKey :: "private_key option"

definition InitializeEscrowClient ::
  "lib \<Rightarrow> EthClient option \<Rightarrow> SwapCreator option \<Rightarrow> address \<Rightarrow> address
    \<Rightarrow> error + XMREscrowClient" where
  "InitializeEscrowClient L ethClient swapCreator' factoryAddr adapterAddr =
    (if factoryAddr = 0 then Inl (ErrorString ''escrow factory address is required'')
     else if adapterAddr = 0 then Inl (ErrorString ''escrow adapter address is required'')
     else if swapCreator' = None then Inl (ErrorString ''swap creator is required'')
     else
      (case ethClient of
         None \<Rightarrow> Inl (Panic ''invalid memory address or nil pointer dereference'')
       | Some ec \<Rightarrow>
      (case Raw ec of
         None \<Rightarrow> Inl (ErrorString ''failed to get raw ethclient'')
       | Some rawClient \<Rightarrow>
      (case PrivateKey ec of
         None \<Rightarrow> Inl (ErrorString ''failed to get private key from ethclient'')
       | Some pk \<Rightarrow>
        (case NewXMREscrowClient L (Some rawClient) swapCreator' factoryAddr adapterAddr
                (Some pk) of
           Inl err \<Rightarrow> Inl (ErrorWrap ''failed to create escrow client: '' err)
         | Inr escrowClient \<Rightarrow> Inr escrowClient)))))"

section \<open>Loading the two addresses from the environment (common/escrow.go)\<close>

text \<open>The environment maps a variable to its value; \<open>os.Getenv\<close> returns the empty
  string for a variable that is not set.\<close>

definition escrowFactoryEnvVar :: string where
  "escrowFactoryEnvVar = ''ESCROW_FACTORY_ADDRESS''"

definition escrowAdapterEnvVar :: string where
  "escrowAdapterEnvVar = ''ESCROW_ADAPTER_ADDRESS''"

definition Getenv :: "(string \<rightharpoonup> string) \<Rightarrow> string \<Rightarrow> string" where
  "Getenv env k = (case env k of None \<Rightarrow> [] | Some v \<Rightarrow> v)"

definition HasPrefix :: "string \<Rightarrow> string \<Rightarrow> bool" where
  "HasPrefix s pre = (length pre \<le> length s \<and> take (length pre) s = pre)"

text \<open>go-ethereum's \<open>common.IsHexAddress\<close> and \<open>common.HexToAddress\<close>: an optional
  \<open>0x\<close> or \<open>0X\<close> prefix, then exactly 40 hexadecimal digits; the digits are decoded
  pairwise into bytes and the last 20 bytes are right-aligned in the address.\<close>

definition has0xPrefix :: "string \<Rightarrow> bool" where
  "has0xPrefix str =
    (2 \<le> length str \<and> str ! 0 = CHR ''0'' \<and> (str ! 1 = CHR ''x'' \<or> str ! 1 = CHR ''X''))"

definition isHexCharacter :: "char \<Rightarrow> bool" where
  "isHexCharacter c =
    (let n = (of_char c :: nat) in
     (48 \<le> n \<and> n \<le> 57) \<or> (97 \<le> n \<and> n \<le> 102) \<or> (65 \<le> n \<and> n \<le> 70))"

definition isHex :: "string \<Rightarrow> bool" where
  "isHex str = (length str mod 2 = 0 \<and> list_all isHexCharacter str)"

definition IsHexAddress :: "string \<Rightarrow> bool" where
  "IsHexAddress s =
    (let s' = (if has0xPrefix s then drop 2 s else s) in length s' = 2 * 20 \<and> isHex s')"

definition fromHexChar :: "char \<Rightarrow> nat option" where
  "fromHexChar c =
    (let n = (of_char c :: nat) in
     if 48 \<le> n \<and> n \<le> 57 then Some (n - 48)
     else if 97 \<le> n \<and> n \<le> 102 then Some (n - 97 + 10)
     else if 65 \<le> n \<and> n \<le> 70 then Some (n - 65 + 10)
     else None)"

text \<open>\<open>hex.DecodeString\<close> with its error dropped, as \<open>Hex2Bytes\<close> does: the bytes
  decoded before the first invalid digit.\<close>

fun hexDecode :: "string \<Rightarrow> bytes" where
  "hexDecode (p # q # rest) =
    (case fromHexChar p of
       None \<Rightarrow> []
     | Some a \<Rightarrow>
        (case fromHexChar q of
           None \<Rightarrow> []
         | Some b \<Rightarrow> word_of_nat (16 * a + b) # hexDecode rest))"
| "hexDecode _ = []"

definition FromHex :: "string \<Rightarrow> bytes" where
  "FromHex s =
    (let s1 = (if has0xPrefix s then drop 2 s else s);
         s2 = (if length s1 mod 2 = 1 then CHR ''0'' # s1 else s1) in
     hexDecode s2)"

definition BytesToAddress :: "bytes \<Rightarrow> address" where
  "BytesToAddress b =
    (let b' = (if 20 < length b then drop (length b - 20) b else b) in
     foldl (\<lambda>a x. a * 256 + ucast x) 0 b')"

definition HexToAddress :: "string \<Rightarrow> address" where
  "HexToAddress s = BytesToAddress (FromHex s)"

definition GetEscrowAddressesFromEnv :: "(string \<rightharpoonup> string) \<Rightarrow> error + address \<times> address" where
  "GetEscrowAddressesFromEnv env =
    (let factoryAddrStr = Getenv env escrowFactoryEnvVar in
     if factoryAddrStr = [] then
       Inl (ErrorString (escrowFactoryEnvVar @ '' environment variable not set''))
     else
      (let factoryAddrStr = (if \<not> HasPrefix factoryAddrStr ''0x''
                             then ''0x'' @ factoryAddrStr else factoryAddrStr) in
       if \<not> IsHexAddress factoryAddrStr then
         Inl (ErrorString (''invalid ethereum address format for '' @ escrowFactoryEnvVar
                @ '': '' @ factoryAddrStr))
       else
        (let factoryAddr = HexToAddress factoryAddrStr;
             adapterAddrStr = Getenv env escrowAdapterEnvVar in
         if adapterAddrStr = [] then
           Inl (ErrorString (escrowAdapterEnvVar @ '' environment variable not set''))
         else
          (let adapterAddrStr = (if \<not> HasPrefix adapterAddrStr ''0x''
                                 then ''0x'' @ adapterAddrStr else adapterAddrStr) in
           if \<not> IsHexAddress adapterAddrStr then
             Inl (ErrorString (''invalid ethereum address format for '' @ escrowAdapterEnvVar
                    @ '': '' @ adapterAddrStr))
           else Inr (factoryAddr, HexToAddress adapterAddrStr)))))"

definition GetEscrowAddressesWithFallback :: "(string \<rightharpoonup> string) \<Rightarrow> address \<times> address" where
  "GetEscrowAddressesWithFallback env =
    (case GetEscrowAddressesFromEnv env of
       Inl err \<Rightarrow> (0, 0)
     | Inr (factoryAddr, adapterAddr) \<Rightarrow> (factoryAddr, adapterAddr))"

section \<open>Auxiliary definitions and fixtures for concrete runs\<close>

text \<open>A library and a node that accept everything, used where a theorem is applied at a
  concrete input. The node reports the pending nonce it is built with.\<close>

definition demoOpts :: "private_key \<Rightarrow> TransactOpts" where
  "demoOpts k = \<lparr>From = word_of_nat k, Nonce = None, TransactOpts.Value = None,
     GasPrice = None, GasLimit = 0\<rparr>"

definition demoLib :: lib where
  "demoLib = \<lparr>PubkeyToAddress = word_of_nat,
     NewKeyedTransactorWithChainID = (\<lambda>k cid. Inr (demoOpts k)),
     Pack = (\<lambda>a m args. Inr []),
     UnpackAddress = (\<lambda>a m bs. Inr 0xE5C0),
     UnpackUint8 = (\<lambda>a m bs.
        if length bs = 32 \<and> take 31 bs = replicate 31 0 then Inr (last bs)
        else Inl ''abi: improperly formatted output''),
     JSON = Inr\<rparr>"

definition demoTx :: Transaction where
  "demoTx = \<lparr>txTo = 0xFAC, txNonce = 7, txValue = 0, txGas = 300000, txGasPrice = 1000000000,
     txData = []\<rparr>"

definition demoNode :: "uint64 \<Rightarrow> node" where
  "demoNode n = \<lparr>PendingNonceAt = (\<lambda>h a. Inr n),
     SuggestGasPrice = (\<lambda>h. Inr 1000000000),
     ChainID = (\<lambda>h. Inr 1),
     CallContract = (\<lambda>h m. Inr []),
     Transact = (\<lambda>h a i opts m args. Inr demoTx)\<rparr>"

definition demoClient :: "node \<Rightarrow> XMREscrowClient" where
  "demoClient nd = \<lparr>client = nd, factoryAddress = 0xFAC, adapterAddress = 0xADA,
     swapCreator = SwapCreator 0x5C, privateKey = 0x11,
     escrowSrcABI = [], escrowFactoryABI = [], swapAdapterABI = []\<rparr>"

text \<open>The requests of a log that submit a transaction, and the requests an operation adds
  to the log it starts from.\<close>

fun isTransact :: "event \<Rightarrow> bool" where
  "isTransact (EvTransact a i opts m args) = True"
| "isTransact _ = False"

definition issued :: "event list \<Rightarrow> event list \<Rightarrow> event list" where
  "issued h h' = drop (length h) h'"

text \<open>The argument list and the signing context \<open>CreateSwap\<close> hands to \<open>Transact\<close>, named
  so that statements can refer to them: the eight arguments of \<open>deposit\<close>, and the
  context of \<open>getAuth\<close> with its value-to-send overwritten for the zero asset.\<close>

definition depositArgs :: "XMREscrowClient \<Rightarrow> SwapParams \<Rightarrow> abi_value list" where
  "depositArgs c params =
     [VAddress (adapterAddress c),
      VAddress (SwapParams.Claimer params),
      VBytes32 (SwapParams.ClaimCommitment params),
      VBytes32 (SwapParams.RefundCommitment params),
      VBigInt (SwapParams.Timeout1 params),
      VBigInt (SwapParams.Timeout2 params),
      VAddress (SwapParams.Asset params),
      VBigInt (SwapParams.Value params)]"

definition depositAuth :: "TransactOpts \<Rightarrow> SwapParams \<Rightarrow> TransactOpts" where
  "depositAuth auth0 params =
     (if SwapParams.Asset params = 0
      then auth0\<lparr>TransactOpts.Value := SwapParams.Value params\<rparr> else auth0)"

text \<open>A native-currency swap (zero asset, value \<open>10^18\<close>), the same swap for a token, and
  the signing context the accepting node and library yield with value-to-send \<open>v\<close>.\<close>

definition ethParams :: SwapParams where
  "ethParams = \<lparr>Claimer = 0xAAA, ClaimCommitment = 0xC1, RefundCommitment = 0xC2,
     Timeout1 = Some 3600, Timeout2 = Some 7200, Asset = 0,
     Value = Some 1000000000000000000\<rparr>"

definition tokenParams :: SwapParams where
  "tokenParams = ethParams\<lparr>SwapParams.Asset := 0x70CE\<rparr>"

definition demoAuth :: "int \<Rightarrow> TransactOpts" where
  "demoAuth v = \<lparr>From = 0x11, Nonce = Some 7, TransactOpts.Value = Some v,
     GasPrice = Some 1000000000, GasLimit = 300000\<rparr>"

text \<open>Nodes that fail one request: the gas-price read, the read-only contract call.\<close>

definition gasFailNode :: node where
  "gasFailNode = (demoNode 7)\<lparr>SuggestGasPrice := (\<lambda>h. Inl ''connection refused'')\<rparr>"

definition callFailNode :: node where
  "callFailNode = (demoNode 7)\<lparr>CallContract := (\<lambda>h m. Inl ''execution reverted'')\<rparr>"

text \<open>A second client for the same deployment: other key, other registry, other nonce.\<close>

definition otherClient :: XMREscrowClient where
  "otherClient = (demoClient (demoNode 9))\<lparr>privateKey := 0x22, swapCreator := SwapCreator 0x77\<rparr>"

text \<open>The seven sentinels the specification groups as contract reverts.\<close>

definition ContractRevertErrors :: "error set" where
  "ContractRevertErrors =
    {ErrInvalidSecret, ErrInvalidSwapState, ErrTimeoutNotReached, ErrTimeoutExceeded,
     ErrSwapAlreadyExists, ErrSwapDoesNotExist, ErrInsufficientFunds}"

text \<open>A node that rejects every submission, and a node whose contract reports state code
  \<open>k\<close> as a 32-byte word.\<close>

definition revertNode :: node where
  "revertNode = (demoNode 7)\<lparr>Transact :=
     (\<lambda>h a i opts m args. Inl ''execution reverted: invalid secret'')\<rparr>"

definition stateNode :: "uint8 \<Rightarrow> node" where
  "stateNode k = (demoNode 7)\<lparr>CallContract := (\<lambda>h m. Inr (replicate 31 0 @ [k]))\<rparr>"

text \<open>The prefix step both branches of the strict loader apply before validation.\<close>

definition ensure0x :: "string \<Rightarrow> string" where
  "ensure0x s = (if \<not> HasPrefix s ''0x'' then ''0x'' @ s else s)"

text \<open>Two environments: one well formed (the adapter without prefix), one whose adapter
  carries an upper-case \<open>0X\<close> prefix.\<close>

definition goodEnv :: "string \<rightharpoonup> string" where
  "goodEnv = [''ESCROW_FACTORY_ADDRESS'' \<mapsto> ''0x5FbDB2315678afecb367f032d93F642f64180aa3'',
              ''ESCROW_ADAPTER_ADDRESS'' \<mapsto> ''e7f1725E7734CE288F8367e1Bb143E90bb3F0512'']"

definition badEnv :: "string \<rightharpoonup> string" where
  "badEnv = [''ESCROW_FACTORY_ADDRESS'' \<mapsto> ''0x5FbDB2315678afecb367f032d93F642f64180aa3'',
             ''ESCROW_ADAPTER_ADDRESS'' \<mapsto> ''0Xe7f1725E7734CE288F8367e1Bb143E90bb3F0512'']"

section \<open>Properties\<close>

lemma getAuth_Inr_fields:
  assumes "getAuth L c h = (Inr auth, h')"
  shows "\<exists>nonce gasPrice.
           PendingNonceAt (client c) h (PubkeyToAddress L (privateKey c)) = Inr nonce
         \<and> Nonce auth = Some (sint nonce)
         \<and> TransactOpts.Value auth = Some 0
         \<and> GasLimit auth = 300000
         \<and> GasPrice auth = Some gasPrice"
  using assms
  by (auto simp: getAuth_def Let_def split: sum.splits)

lemma sint_uint64_small:
  assumes "uint (n::uint64) < 2 ^ 63"
  shows "sint n = uint n"
proof -
  have "- (2 ^ 63) \<le> (0::int)" by simp
  also have "0 \<le> uint n" by simp
  finally have "- (2 ^ 63) \<le> uint n" .
  then have "signed_take_bit 63 (uint n) = uint n"
    using assms by (rule signed_take_bit_int_eq_self)
  then show ?thesis by (simp add: sint_uint)
qed

lemma sint_uint64_large:
  assumes "2 ^ 63 \<le> uint (n::uint64)"
  shows "sint n = uint n - 2 ^ 64"
proof -
  have lt: "uint n < 2 ^ 64" using uint_lt2p [of n] by simp
  have "sint n = take_bit 64 (uint n + 2 ^ 63) - 2 ^ 63"
    by (simp add: sint_uint signed_take_bit_eq_take_bit_shift)
  also have "take_bit 64 (uint n + 2 ^ 63) = (uint n + 2 ^ 63) mod 2 ^ 64"
    by (simp add: take_bit_eq_mod)
  also have "(uint n + 2 ^ 63) mod 2 ^ 64 = uint n + 2 ^ 63 - 2 ^ 64"
  proof -
    have "(uint n + 2 ^ 63 - 2 ^ 64) mod 2 ^ 64 = uint n + 2 ^ 63 - 2 ^ 64"
      using assms lt by (intro mod_pos_pos_trivial) simp_all
    moreover have "(uint n + 2 ^ 63 - 2 ^ 64) mod 2 ^ 64 = (uint n + 2 ^ 63) mod 2 ^ 64"
      by (metis minus_mod_self2)
    ultimately show ?thesis by simp
  qed
  finally show ?thesis by simp
qed

text \<open>
  C10. \<open>getAuth\<close> stores the fetched pending nonce through a uint64-to-int64 conversion:
  the nonce of the signing context is the two's-complement reading of the 64 bits. It
  equals the account's pending nonce when that nonce is below \<open>2^63\<close>; for a pending
  nonce of \<open>2^63\<close> or more it is the nonce minus \<open>2^64\<close>, a negative number, so it
  equals the pending nonce only below \<open>2^63\<close>.
\<close>

theorem getAuth_nonce_int64_wrap:
  assumes "getAuth L c h = (Inr auth, h')"
  shows "\<exists>nonce. PendingNonceAt (client c) h (PubkeyToAddress L (privateKey c)) = Inr nonce
           \<and> Nonce auth = Some (sint nonce)
           \<and> (uint nonce < 2 ^ 63 \<longrightarrow> sint nonce = uint nonce)
           \<and> (2 ^ 63 \<le> uint nonce \<longrightarrow> sint nonce = uint nonce - 2 ^ 64 \<and> sint nonce < 0)"
proof -
  from getAuth_Inr_fields [OF assms] obtain nonce where
    n: "PendingNonceAt (client c) h (PubkeyToAddress L (privateKey c)) = Inr nonce"
    and a: "Nonce auth = Some (sint nonce)"
    by blast
  have small: "uint nonce < 2 ^ 63 \<longrightarrow> sint nonce = uint nonce"
    using sint_uint64_small by blast
  have large: "2 ^ 63 \<le> uint nonce \<longrightarrow> sint nonce = uint nonce - 2 ^ 64 \<and> sint nonce < 0"
  proof
    assume b: "2 ^ 63 \<le> uint nonce"
    have e: "sint nonce = uint nonce - 2 ^ 64" using b by (rule sint_uint64_large)
    have "uint nonce < 2 ^ 64" using uint_lt2p [of nonce] by simp
    with e show "sint nonce = uint nonce - 2 ^ 64 \<and> sint nonce < 0" by simp
  qed
  from n a small large show ?thesis by blast
qed

theorem getAuth_nonce_int64_wrap_witness:
  "getAuth demoLib (demoClient (demoNode 0x8000000000000005)) [] =
     (Inr ((demoOpts 0x11)\<lparr>Nonce := Some (- 9223372036854775803),
        TransactOpts.Value := Some 0, GasLimit := 300000, GasPrice := Some 1000000000\<rparr>),
      [EvPendingNonceAt 0x11, EvSuggestGasPrice, EvChainID])
   \<and> (\<exists>nonce::uint64. nonce = 0x8000000000000005 \<and> 2 ^ 63 \<le> uint nonce
        \<and> sint nonce = - 9223372036854775803 \<and> sint nonce < 0)"
proof -
  let ?auth = "(demoOpts 0x11)\<lparr>Nonce := Some (- 9223372036854775803),
        TransactOpts.Value := Some 0, GasLimit := 300000, GasPrice := Some 1000000000\<rparr>"
  let ?log = "[EvPendingNonceAt 0x11, EvSuggestGasPrice, EvChainID]"
  have run: "getAuth demoLib (demoClient (demoNode 0x8000000000000005)) [] = (Inr ?auth, ?log)"
    by (simp add: getAuth_def demoLib_def demoClient_def demoNode_def demoOpts_def)
  from getAuth_nonce_int64_wrap [OF run] obtain nonce where
    n: "PendingNonceAt (client (demoClient (demoNode 0x8000000000000005))) []
          (PubkeyToAddress demoLib (privateKey (demoClient (demoNode 0x8000000000000005))))
        = Inr nonce"
    and l: "2 ^ 63 \<le> uint nonce \<longrightarrow> sint nonce = uint nonce - 2 ^ 64 \<and> sint nonce < 0"
    by blast
  from n have v: "nonce = 0x8000000000000005"
    by (simp add: demoClient_def demoNode_def)
  have big: "2 ^ 63 \<le> uint nonce" by (simp add: v)
  with l have "sint nonce = uint nonce - 2 ^ 64 \<and> sint nonce < 0" by blast
  then have "sint nonce = - 9223372036854775803 \<and> sint nonce < 0" by (simp add: v)
  with run v big show ?thesis by blast
qed

lemma getAuth_log:
  "\<exists>evs. snd (getAuth L c h) = h @ EvPendingNonceAt (PubkeyToAddress L (privateKey c)) # evs
         \<and> (\<forall>e \<in> set evs. \<not> isTransact e)"
  by (auto simp: getAuth_def Let_def split: sum.splits)

lemma calculateEscrowAddress_log:
  "\<exists>evs. snd (calculateEscrowAddress L c h p) = h @ evs \<and> (\<forall>e \<in> set evs. \<not> isTransact e)"
  by (auto simp: calculateEscrowAddress_def Let_def split: sum.splits)

lemma getAuth_Inl_ext:
  "getAuth L c h = (Inl e, h') \<Longrightarrow> \<exists>m. e = ExtError m"
  by (auto simp: getAuth_def Let_def split: sum.splits)

lemma calculateEscrowAddress_Inl_ext:
  "calculateEscrowAddress L c h p = (Inl e, h') \<Longrightarrow> \<exists>m. e = ExtError m"
  by (auto simp: calculateEscrowAddress_def Let_def split: sum.splits)

lemma CreateSwap_auth_fails:
  "getAuth L c h = (Inl e, h1) \<Longrightarrow> CreateSwap L c h p = ((None, 0, Some e), h1)"
  by (simp add: CreateSwap_def)

lemma CreateSwap_resolve_fails:
  "getAuth L c h = (Inr auth0, h1) \<Longrightarrow> calculateEscrowAddress L c h1 p = (Inl e, h2)
   \<Longrightarrow> CreateSwap L c h p = ((None, 0, Some e), h2)"
  by (simp add: CreateSwap_def Let_def)

lemma CreateSwap_submits:
  "getAuth L c h = (Inr auth0, h1) \<Longrightarrow> calculateEscrowAddress L c h1 p = (Inr addr, h2)
   \<Longrightarrow> CreateSwap L c h p =
     ((case Transact (client c) h2 (factoryAddress c) (escrowFactoryABI c) (depositAuth auth0 p)
             ''deposit'' (depositArgs c p) of
         Inl e \<Rightarrow> (None, 0, Some (ExtError e))
       | Inr tx \<Rightarrow> (Some tx, addr, None)),
      h2 @ [EvTransact (factoryAddress c) (escrowFactoryABI c) (depositAuth auth0 p)
              ''deposit'' (depositArgs c p)])"
  by (simp add: CreateSwap_def Let_def depositArgs_def depositAuth_def split: sum.splits)

lemma ClaimSwap_submits:
  "getAuth L c h = (Inr auth, h1) \<Longrightarrow>
   ClaimSwap L c h a s =
     ((case Transact (client c) h1 a (escrowSrcABI c) auth ''withdraw'' [VBytes32 s] of
         Inl e \<Rightarrow> Inl (ExtError e) | Inr tx \<Rightarrow> Inr tx),
      h1 @ [EvTransact a (escrowSrcABI c) auth ''withdraw'' [VBytes32 s]])"
  by (simp add: ClaimSwap_def Let_def split: sum.splits)

lemma RefundSwap_submits:
  "getAuth L c h = (Inr auth, h1) \<Longrightarrow>
   RefundSwap L c h a k =
     ((case Transact (client c) h1 a (escrowSrcABI c) auth ''refund'' [VBytes32 k] of
         Inl e \<Rightarrow> Inl (ExtError e) | Inr tx \<Rightarrow> Inr tx),
      h1 @ [EvTransact a (escrowSrcABI c) auth ''refund'' [VBytes32 k]])"
  by (simp add: RefundSwap_def Let_def split: sum.splits)

lemma ClaimSwap_auth_fails:
  "getAuth L c h = (Inl e, h1) \<Longrightarrow> ClaimSwap L c h a s = (Inl e, h1)"
  by (simp add: ClaimSwap_def)

lemma RefundSwap_auth_fails:
  "getAuth L c h = (Inl e, h1) \<Longrightarrow> RefundSwap L c h a k = (Inl e, h1)"
  by (simp add: RefundSwap_def)

lemma issued_append [simp]: "issued h (h @ evs) = evs"
  by (simp add: issued_def)

lemma getAuth_issued:
  "getAuth L c h = (r, h1) \<Longrightarrow> \<exists>evs. h1 = h @ evs \<and> (\<forall>e \<in> set evs. \<not> isTransact e)"
  using getAuth_log [of L c h] by auto

lemma calculateEscrowAddress_issued:
  "calculateEscrowAddress L c h p = (r, h1) \<Longrightarrow>
     \<exists>evs. h1 = h @ evs \<and> (\<forall>e \<in> set evs. \<not> isTransact e)"
  using calculateEscrowAddress_log [of L c h p] by auto

text \<open>
  C5. A signing context built by \<open>getAuth\<close> has value-to-send 0 and gas limit 300000,
  whichever operation asked for it. Every submission of \<open>CreateSwap\<close> carries gas limit
  300000 and, as value-to-send, \<open>params.Value\<close> when the asset is the zero address and 0
  otherwise; every submission of \<open>ClaimSwap\<close> and of \<open>RefundSwap\<close> carries value 0 and
  gas limit 300000.
\<close>

theorem signing_context_value_and_gas:
  "(\<forall>auth h1. getAuth L c h = (Inr auth, h1) \<longrightarrow>
      TransactOpts.Value auth = Some 0 \<and> GasLimit auth = 300000)
   \<and> (\<forall>a i opts m args.
        EvTransact a i opts m args \<in> set (issued h (snd (CreateSwap L c h p))) \<longrightarrow>
          TransactOpts.Value opts =
            (if SwapParams.Asset p = 0 then SwapParams.Value p else Some 0)
          \<and> GasLimit opts = 300000)
   \<and> (\<forall>a i opts m args.
        EvTransact a i opts m args \<in> set (issued h (snd (ClaimSwap L c h esc s))) \<longrightarrow>
          TransactOpts.Value opts = Some 0 \<and> GasLimit opts = 300000)
   \<and> (\<forall>a i opts m args.
        EvTransact a i opts m args \<in> set (issued h (snd (RefundSwap L c h esc k))) \<longrightarrow>
          TransactOpts.Value opts = Some 0 \<and> GasLimit opts = 300000)"
proof (intro conjI allI impI)
  fix auth h1 assume "getAuth L c h = (Inr auth, h1)"
  from getAuth_Inr_fields [OF this]
  show "TransactOpts.Value auth = Some 0" and "GasLimit auth = 300000" by auto
next
  fix a i opts m args
  assume ev: "EvTransact a i opts m args \<in> set (issued h (snd (CreateSwap L c h p)))"
  obtain r h1 where g: "getAuth L c h = (r, h1)" by (cases "getAuth L c h")
  from getAuth_issued [OF g] obtain evs1 where h1: "h1 = h @ evs1"
    and n1: "\<forall>e \<in> set evs1. \<not> isTransact e" by blast
  have "TransactOpts.Value opts =
            (if SwapParams.Asset p = 0 then SwapParams.Value p else Some 0)
          \<and> GasLimit opts = 300000"
  proof (cases r)
    case (Inl e)
    with g have "CreateSwap L c h p = ((None, 0, Some e), h1)"
      by (simp add: CreateSwap_auth_fails)
    with ev h1 n1 show ?thesis by auto
  next
    case (Inr auth0)
    with g have g': "getAuth L c h = (Inr auth0, h1)" by simp
    from getAuth_Inr_fields [OF g'] have v0: "TransactOpts.Value auth0 = Some 0"
      and l0: "GasLimit auth0 = 300000" by auto
    obtain r2 h2 where ca: "calculateEscrowAddress L c h1 p = (r2, h2)"
      by (cases "calculateEscrowAddress L c h1 p")
    from calculateEscrowAddress_issued [OF ca] obtain evs2 where h2: "h2 = h1 @ evs2"
      and n2: "\<forall>e \<in> set evs2. \<not> isTransact e" by blast
    show ?thesis
    proof (cases r2)
      case (Inl e)
      with g' ca have "CreateSwap L c h p = ((None, 0, Some e), h2)"
        by (simp add: CreateSwap_resolve_fails)
      with ev h1 h2 n1 n2 show ?thesis by auto
    next
      case (Inr addr)
      with ca have ca': "calculateEscrowAddress L c h1 p = (Inr addr, h2)" by simp
      from CreateSwap_submits [OF g' ca'] ev h1 h2 n1 n2
      have "opts = depositAuth auth0 p" by auto
      with v0 l0 show ?thesis by (simp add: depositAuth_def)
    qed
  qed
  then show "TransactOpts.Value opts =
            (if SwapParams.Asset p = 0 then SwapParams.Value p else Some 0)"
    and "GasLimit opts = 300000" by auto
next
  fix a i opts m args
  assume ev: "EvTransact a i opts m args \<in> set (issued h (snd (ClaimSwap L c h esc s)))"
  obtain r h1 where g: "getAuth L c h = (r, h1)" by (cases "getAuth L c h")
  from getAuth_issued [OF g] obtain evs1 where h1: "h1 = h @ evs1"
    and n1: "\<forall>e \<in> set evs1. \<not> isTransact e" by blast
  have "TransactOpts.Value opts = Some 0 \<and> GasLimit opts = 300000"
  proof (cases r)
    case (Inl e)
    with g have "ClaimSwap L c h esc s = (Inl e, h1)" by (simp add: ClaimSwap_auth_fails)
    with ev h1 n1 show ?thesis by auto
  next
    case (Inr auth)
    with g have g': "getAuth L c h = (Inr auth, h1)" by simp
    from ClaimSwap_submits [OF g'] ev h1 n1 have "opts = auth" by auto
    with getAuth_Inr_fields [OF g'] show ?thesis by auto
  qed
  then show "TransactOpts.Value opts = Some 0" and "GasLimit opts = 300000" by auto
next
  fix a i opts m args
  assume ev: "EvTransact a i opts m args \<in> set (issued h (snd (RefundSwap L c h esc k)))"
  obtain r h1 where g: "getAuth L c h = (r, h1)" by (cases "getAuth L c h")
  from getAuth_issued [OF g] obtain evs1 where h1: "h1 = h @ evs1"
    and n1: "\<forall>e \<in> set evs1. \<not> isTransact e" by blast
  have "TransactOpts.Value opts = Some 0 \<and> GasLimit opts = 300000"
  proof (cases r)
    case (Inl e)
    with g have "RefundSwap L c h esc k = (Inl e, h1)" by (simp add: RefundSwap_auth_fails)
    with ev h1 n1 show ?thesis by auto
  next
    case (Inr auth)
    with g have g': "getAuth L c h = (Inr auth, h1)" by simp
    from RefundSwap_submits [OF g'] ev h1 n1 have "opts = auth" by auto
    with getAuth_Inr_fields [OF g'] show ?thesis by auto
  qed
  then show "TransactOpts.Value opts = Some 0" and "GasLimit opts = 300000" by auto
qed

lemma demo_getAuth:
  "getAuth demoLib (demoClient (demoNode 7)) h =
     (Inr (demoAuth 0), h @ [EvPendingNonceAt 0x11, EvSuggestGasPrice, EvChainID])"
  by (simp add: getAuth_def demoLib_def demoClient_def demoNode_def demoOpts_def demoAuth_def)

lemma demo_calculate:
  "calculateEscrowAddress demoLib (demoClient (demoNode 7)) h p =
     (Inr 0xE5C0, h @ [EvCallContract \<lparr>To = Some 0xFAC, Data = []\<rparr>])"
  by (simp add: calculateEscrowAddress_def demoLib_def demoClient_def demoNode_def)

lemma demo_CreateSwap:
  "CreateSwap demoLib (demoClient (demoNode 7)) [] p =
     ((Some demoTx, 0xE5C0, None),
      [EvPendingNonceAt 0x11, EvSuggestGasPrice, EvChainID,
       EvCallContract \<lparr>To = Some 0xFAC, Data = []\<rparr>,
       EvTransact 0xFAC [] (depositAuth (demoAuth 0) p) ''deposit''
         (depositArgs (demoClient (demoNode 7)) p)])"
  using CreateSwap_submits [OF demo_getAuth demo_calculate, of "[]" p]
  by (simp add: demoClient_def demoNode_def)

lemma demo_ClaimSwap:
  "ClaimSwap demoLib (demoClient (demoNode 7)) [] a s =
     (Inr demoTx,
      [EvPendingNonceAt 0x11, EvSuggestGasPrice, EvChainID,
       EvTransact a [] (demoAuth 0) ''withdraw'' [VBytes32 s]])"
  using ClaimSwap_submits [OF demo_getAuth, of "[]" a s]
  by (simp add: demoClient_def demoNode_def)

lemma demo_RefundSwap:
  "RefundSwap demoLib (demoClient (demoNode 7)) [] a s =
     (Inr demoTx,
      [EvPendingNonceAt 0x11, EvSuggestGasPrice, EvChainID,
       EvTransact a [] (demoAuth 0) ''refund'' [VBytes32 s]])"
  using RefundSwap_submits [OF demo_getAuth, of "[]" a s]
  by (simp add: demoClient_def demoNode_def)

theorem signing_context_value_and_gas_witness:
  "EvTransact 0xFAC [] (demoAuth 1000000000000000000) ''deposit''
       (depositArgs (demoClient (demoNode 7)) ethParams)
     \<in> set (issued [] (snd (CreateSwap demoLib (demoClient (demoNode 7)) [] ethParams)))
   \<and> TransactOpts.Value (demoAuth 1000000000000000000) = Some 1000000000000000000
   \<and> GasLimit (demoAuth 1000000000000000000) = 300000
   \<and> EvTransact 0xFAC [] (demoAuth 0) ''deposit''
       (depositArgs (demoClient (demoNode 7)) tokenParams)
     \<in> set (issued [] (snd (CreateSwap demoLib (demoClient (demoNode 7)) [] tokenParams)))
   \<and> TransactOpts.Value (demoAuth 0) = Some 0
   \<and> EvTransact 0xE5C0 [] (demoAuth 0) ''withdraw'' [VBytes32 0x5EC]
     \<in> set (issued [] (snd (ClaimSwap demoLib (demoClient (demoNode 7)) [] 0xE5C0 0x5EC)))
   \<and> EvTransact 0xE5C0 [] (demoAuth 0) ''refund'' [VBytes32 0x4EF]
     \<in> set (issued [] (snd (RefundSwap demoLib (demoClient (demoNode 7)) [] 0xE5C0 0x4EF)))"
proof -
  let ?c = "demoClient (demoNode 7)"
  have e1: "EvTransact 0xFAC [] (demoAuth 1000000000000000000) ''deposit''
       (depositArgs ?c ethParams)
     \<in> set (issued [] (snd (CreateSwap demoLib ?c [] ethParams)))"
    by (simp add: demo_CreateSwap issued_def depositAuth_def ethParams_def demoAuth_def)
  have e2: "EvTransact 0xFAC [] (demoAuth 0) ''deposit'' (depositArgs ?c tokenParams)
     \<in> set (issued [] (snd (CreateSwap demoLib ?c [] tokenParams)))"
    by (simp add: demo_CreateSwap issued_def depositAuth_def tokenParams_def ethParams_def
        demoAuth_def)
  have e3: "EvTransact 0xE5C0 [] (demoAuth 0) ''withdraw'' [VBytes32 0x5EC]
     \<in> set (issued [] (snd (ClaimSwap demoLib ?c [] 0xE5C0 0x5EC)))"
    by (simp add: demo_ClaimSwap issued_def)
  have e4: "EvTransact 0xE5C0 [] (demoAuth 0) ''refund'' [VBytes32 0x4EF]
     \<in> set (issued [] (snd (RefundSwap demoLib ?c [] 0xE5C0 0x4EF)))"
    by (simp add: demo_RefundSwap issued_def)
  note T = signing_context_value_and_gas [of demoLib ?c "[]"]
  from T [of ethParams] e1
  have v1: "TransactOpts.Value (demoAuth 1000000000000000000) =
      (if SwapParams.Asset ethParams = 0 then SwapParams.Value ethParams else Some 0)
    \<and> GasLimit (demoAuth 1000000000000000000) = 300000"
    by blast
  from T [of tokenParams] e2
  have v2: "TransactOpts.Value (demoAuth 0) =
      (if SwapParams.Asset tokenParams = 0 then SwapParams.Value tokenParams else Some 0)"
    by blast
  from v1 have w1: "TransactOpts.Value (demoAuth 1000000000000000000) = Some 1000000000000000000"
    and w2: "GasLimit (demoAuth 1000000000000000000) = 300000"
    by (simp_all add: ethParams_def)
  from v2 have w3: "TransactOpts.Value (demoAuth 0) = Some 0"
    by (simp add: tokenParams_def ethParams_def)
  from e1 w1 w2 e2 w3 e3 e4 show ?thesis by blast
qed

lemma getAuth_read_fails:
  assumes "(\<exists>m. PendingNonceAt (client c) h (PubkeyToAddress L (privateKey c)) = Inl m)
         \<or> (\<exists>m. SuggestGasPrice (client c)
                  (h @ [EvPendingNonceAt (PubkeyToAddress L (privateKey c))]) = Inl m)
         \<or> (\<exists>m. ChainID (client c)
                  (h @ [EvPendingNonceAt (PubkeyToAddress L (privateKey c)),
                        EvSuggestGasPrice]) = Inl m)"
  shows "\<exists>e h1. getAuth L c h = (Inl e, h1)"
  using assms by (auto simp: getAuth_def Let_def split: sum.splits)

text \<open>
  C7. \<open>CreateSwap\<close> on early failure. When the nonce read, the gas-price read or the
  chain-id read fails, building the signing context fails. When building the signing
  context fails, or resolving the escrow address fails, \<open>CreateSwap\<close> returns that error
  with no transaction and the zero address, and the requests it issued contain no
  submission. On success, that is when the signing context is built, the address is
  resolved and the node accepts the deposit submission, \<open>CreateSwap\<close> returns the
  transaction the node answered with, the address resolved before the submission and a
  nil error, and the submission is the last request of the log. Conversely, when it
  returns a transaction, it got there that way.
\<close>

theorem CreateSwap_early_failure:
  "((\<exists>m. PendingNonceAt (client c) h (PubkeyToAddress L (privateKey c)) = Inl m)
      \<or> (\<exists>m. SuggestGasPrice (client c)
                  (h @ [EvPendingNonceAt (PubkeyToAddress L (privateKey c))]) = Inl m)
      \<or> (\<exists>m. ChainID (client c)
                  (h @ [EvPendingNonceAt (PubkeyToAddress L (privateKey c)),
                        EvSuggestGasPrice]) = Inl m)
     \<longrightarrow> (\<exists>e h1. getAuth L c h = (Inl e, h1)))
   \<and> (\<forall>e h1. getAuth L c h = (Inl e, h1) \<longrightarrow>
         CreateSwap L c h p = ((None, 0, Some e), h1)
         \<and> (\<forall>ev \<in> set (issued h h1). \<not> isTransact ev))
   \<and> (\<forall>auth0 h1 e h2.
         getAuth L c h = (Inr auth0, h1) \<and> calculateEscrowAddress L c h1 p = (Inl e, h2) \<longrightarrow>
         CreateSwap L c h p = ((None, 0, Some e), h2)
         \<and> (\<forall>ev \<in> set (issued h h2). \<not> isTransact ev))
   \<and> (\<forall>tx addr err h'. CreateSwap L c h p = ((Some tx, addr, err), h') \<longrightarrow>
         err = None
         \<and> (\<exists>auth0 h1 h2.
               getAuth L c h = (Inr auth0, h1)
             \<and> calculateEscrowAddress L c h1 p = (Inr addr, h2)
             \<and> Transact (client c) h2 (factoryAddress c) (escrowFactoryABI c)
                  (depositAuth auth0 p) ''deposit'' (depositArgs c p) = Inr tx
             \<and> h' = h2 @ [EvTransact (factoryAddress c) (escrowFactoryABI c)
                              (depositAuth auth0 p) ''deposit'' (depositArgs c p)]))
   \<and> (\<forall>auth0 h1 addr h2 tx.
         getAuth L c h = (Inr auth0, h1)
         \<and> calculateEscrowAddress L c h1 p = (Inr addr, h2)
         \<and> Transact (client c) h2 (factoryAddress c) (escrowFactoryABI c)
               (depositAuth auth0 p) ''deposit'' (depositArgs c p) = Inr tx
         \<longrightarrow> CreateSwap L c h p =
               ((Some tx, addr, None),
                h2 @ [EvTransact (factoryAddress c) (escrowFactoryABI c)
                        (depositAuth auth0 p) ''deposit'' (depositArgs c p)]))"
proof (intro conjI)
  show "(\<exists>m. PendingNonceAt (client c) h (PubkeyToAddress L (privateKey c)) = Inl m)
      \<or> (\<exists>m. SuggestGasPrice (client c)
                  (h @ [EvPendingNonceAt (PubkeyToAddress L (privateKey c))]) = Inl m)
      \<or> (\<exists>m. ChainID (client c)
                  (h @ [EvPendingNonceAt (PubkeyToAddress L (privateKey c)),
                        EvSuggestGasPrice]) = Inl m)
     \<longrightarrow> (\<exists>e h1. getAuth L c h = (Inl e, h1))"
    using getAuth_read_fails [of c h L] by blast
next
  show "\<forall>e h1. getAuth L c h = (Inl e, h1) \<longrightarrow>
         CreateSwap L c h p = ((None, 0, Some e), h1)
         \<and> (\<forall>ev \<in> set (issued h h1). \<not> isTransact ev)"
  proof (intro allI impI)
    fix e h1 assume g: "getAuth L c h = (Inl e, h1)"
    from getAuth_issued [OF g] have "\<forall>ev \<in> set (issued h h1). \<not> isTransact ev" by auto
    with CreateSwap_auth_fails [OF g, of p]
    show "CreateSwap L c h p = ((None, 0, Some e), h1)
         \<and> (\<forall>ev \<in> set (issued h h1). \<not> isTransact ev)" by simp
  qed
next
  show "\<forall>auth0 h1 e h2.
         getAuth L c h = (Inr auth0, h1) \<and> calculateEscrowAddress L c h1 p = (Inl e, h2) \<longrightarrow>
         CreateSwap L c h p = ((None, 0, Some e), h2)
         \<and> (\<forall>ev \<in> set (issued h h2). \<not> isTransact ev)"
  proof (intro allI impI)
    fix auth0 h1 e h2
    assume a: "getAuth L c h = (Inr auth0, h1) \<and> calculateEscrowAddress L c h1 p = (Inl e, h2)"
    then have g: "getAuth L c h = (Inr auth0, h1)"
      and ca: "calculateEscrowAddress L c h1 p = (Inl e, h2)" by simp_all
    from getAuth_issued [OF g] obtain evs1 where h1: "h1 = h @ evs1"
      and n1: "\<forall>e \<in> set evs1. \<not> isTransact e" by blast
    from calculateEscrowAddress_issued [OF ca] obtain evs2 where h2: "h2 = h1 @ evs2"
      and n2: "\<forall>e \<in> set evs2. \<not> isTransact e" by blast
    have "issued h h2 = evs1 @ evs2" by (simp add: h1 h2 issued_def)
    with n1 n2 have "\<forall>ev \<in> set (issued h h2). \<not> isTransact ev" by auto
    with CreateSwap_resolve_fails [OF g ca]
    show "CreateSwap L c h p = ((None, 0, Some e), h2)
         \<and> (\<forall>ev \<in> set (issued h h2). \<not> isTransact ev)" by simp
  qed
next
  show "\<forall>tx addr err h'. CreateSwap L c h p = ((Some tx, addr, err), h') \<longrightarrow>
         err = None
         \<and> (\<exists>auth0 h1 h2.
               getAuth L c h = (Inr auth0, h1)
             \<and> calculateEscrowAddress L c h1 p = (Inr addr, h2)
             \<and> Transact (client c) h2 (factoryAddress c) (escrowFactoryABI c)
                  (depositAuth auth0 p) ''deposit'' (depositArgs c p) = Inr tx
             \<and> h' = h2 @ [EvTransact (factoryAddress c) (escrowFactoryABI c)
                              (depositAuth auth0 p) ''deposit'' (depositArgs c p)])"
  proof (intro allI impI)
    fix tx addr err h'
    assume cs: "CreateSwap L c h p = ((Some tx, addr, err), h')"
    obtain r h1 where g: "getAuth L c h = (r, h1)" by (cases "getAuth L c h")
    show "err = None
         \<and> (\<exists>auth0 h1 h2.
               getAuth L c h = (Inr auth0, h1)
             \<and> calculateEscrowAddress L c h1 p = (Inr addr, h2)
             \<and> Transact (client c) h2 (factoryAddress c) (escrowFactoryABI c)
                  (depositAuth auth0 p) ''deposit'' (depositArgs c p) = Inr tx
             \<and> h' = h2 @ [EvTransact (factoryAddress c) (escrowFactoryABI c)
                              (depositAuth auth0 p) ''deposit'' (depositArgs c p)])"
    proof (cases r)
      case (Inl e)
      with g cs CreateSwap_auth_fails [of L c h e h1 p] show ?thesis by simp
    next
      case (Inr auth0)
      with g have g': "getAuth L c h = (Inr auth0, h1)" by simp
      obtain r2 h2 where ca: "calculateEscrowAddress L c h1 p = (r2, h2)"
        by (cases "calculateEscrowAddress L c h1 p")
      show ?thesis
      proof (cases r2)
        case (Inl e)
        with g' ca cs CreateSwap_resolve_fails [of L c h auth0 h1 p e h2] show ?thesis by simp
      next
        case (Inr a)
        with ca have ca': "calculateEscrowAddress L c h1 p = (Inr a, h2)" by simp
        from CreateSwap_submits [OF g' ca'] cs
        have "err = None \<and> a = addr
            \<and> Transact (client c) h2 (factoryAddress c) (escrowFactoryABI c)
                  (depositAuth auth0 p) ''deposit'' (depositArgs c p) = Inr tx
            \<and> h' = h2 @ [EvTransact (factoryAddress c) (escrowFactoryABI c)
                              (depositAuth auth0 p) ''deposit'' (depositArgs c p)]"
          by (auto split: sum.splits)
        with g' ca' show ?thesis by blast
      qed
    qed
  qed
next
  show "\<forall>auth0 h1 addr h2 tx.
         getAuth L c h = (Inr auth0, h1)
         \<and> calculateEscrowAddress L c h1 p = (Inr addr, h2)
         \<and> Transact (client c) h2 (factoryAddress c) (escrowFactoryABI c)
               (depositAuth auth0 p) ''deposit'' (depositArgs c p) = Inr tx
         \<longrightarrow> CreateSwap L c h p =
               ((Some tx, addr, None),
                h2 @ [EvTransact (factoryAddress c) (escrowFactoryABI c)
                        (depositAuth auth0 p) ''deposit'' (depositArgs c p)])"
  proof (intro allI impI)
    fix auth0 h1 addr h2 tx
    assume a: "getAuth L c h = (Inr auth0, h1)
         \<and> calculateEscrowAddress L c h1 p = (Inr addr, h2)
         \<and> Transact (client c) h2 (factoryAddress c) (escrowFactoryABI c)
               (depositAuth auth0 p) ''deposit'' (depositArgs c p) = Inr tx"
    then have g: "getAuth L c h = (Inr auth0, h1)"
      and ca: "calculateEscrowAddress L c h1 p = (Inr addr, h2)"
      and tr: "Transact (client c) h2 (factoryAddress c) (escrowFactoryABI c)
               (depositAuth auth0 p) ''deposit'' (depositArgs c p) = Inr tx"
      by simp_all
    from CreateSwap_submits [OF g ca] tr
    show "CreateSwap L c h p =
               ((Some tx, addr, None),
                h2 @ [EvTransact (factoryAddress c) (escrowFactoryABI c)
                        (depositAuth auth0 p) ''deposit'' (depositArgs c p)])"
      by simp
  qed
qed

theorem CreateSwap_early_failure_witness:
  "CreateSwap demoLib (demoClient gasFailNode) [] ethParams =
     ((None, 0, Some (ExtError ''connection refused'')),
      [EvPendingNonceAt 0x11, EvSuggestGasPrice])
   \<and> CreateSwap demoLib (demoClient callFailNode) [] ethParams =
     ((None, 0, Some (ExtError ''execution reverted'')),
      [EvPendingNonceAt 0x11, EvSuggestGasPrice, EvChainID,
       EvCallContract \<lparr>To = Some 0xFAC, Data = []\<rparr>])
   \<and> CreateSwap demoLib (demoClient (demoNode 7)) [] ethParams =
     ((Some demoTx, 0xE5C0, None),
      [EvPendingNonceAt 0x11, EvSuggestGasPrice, EvChainID,
       EvCallContract \<lparr>To = Some 0xFAC, Data = []\<rparr>,
       EvTransact 0xFAC [] (demoAuth 1000000000000000000) ''deposit''
         (depositArgs (demoClient (demoNode 7)) ethParams)])
   \<and> CreateSwap demoLib (demoClient (demoNode 7)) [] tokenParams =
     ((Some demoTx, 0xE5C0, None),
      [EvPendingNonceAt 0x11, EvSuggestGasPrice, EvChainID,
       EvCallContract \<lparr>To = Some 0xFAC, Data = []\<rparr>,
       EvTransact 0xFAC [] (demoAuth 0) ''deposit''
         (depositArgs (demoClient (demoNode 7)) tokenParams)])
   \<and> calculateEscrowAddress demoLib (demoClient (demoNode 7))
        [EvPendingNonceAt 0x11, EvSuggestGasPrice, EvChainID] ethParams =
     (Inr 0xE5C0,
      [EvPendingNonceAt 0x11, EvSuggestGasPrice, EvChainID,
       EvCallContract \<lparr>To = Some 0xFAC, Data = []\<rparr>])"
proof -
  have g1: "getAuth demoLib (demoClient gasFailNode) [] =
      (Inl (ExtError ''connection refused''), [EvPendingNonceAt 0x11, EvSuggestGasPrice])"
    by (simp add: getAuth_def demoLib_def demoClient_def demoNode_def gasFailNode_def)
  have g2: "getAuth demoLib (demoClient callFailNode) [] =
      (Inr (demoAuth 0), [EvPendingNonceAt 0x11, EvSuggestGasPrice, EvChainID])"
    by (simp add: getAuth_def demoLib_def demoClient_def demoNode_def callFailNode_def
        demoOpts_def demoAuth_def)
  have c2: "calculateEscrowAddress demoLib (demoClient callFailNode)
      [EvPendingNonceAt 0x11, EvSuggestGasPrice, EvChainID] ethParams =
      (Inl (ExtError ''execution reverted''),
       [EvPendingNonceAt 0x11, EvSuggestGasPrice, EvChainID,
        EvCallContract \<lparr>To = Some 0xFAC, Data = []\<rparr>])"
    by (simp add: calculateEscrowAddress_def demoLib_def demoClient_def demoNode_def
        callFailNode_def)
  have r1: "CreateSwap demoLib (demoClient gasFailNode) [] ethParams =
     ((None, 0, Some (ExtError ''connection refused'')),
      [EvPendingNonceAt 0x11, EvSuggestGasPrice])"
    using CreateSwap_early_failure [of "demoClient gasFailNode" "[]" demoLib ethParams] g1
    by blast
  have r2: "CreateSwap demoLib (demoClient callFailNode) [] ethParams =
     ((None, 0, Some (ExtError ''execution reverted'')),
      [EvPendingNonceAt 0x11, EvSuggestGasPrice, EvChainID,
       EvCallContract \<lparr>To = Some 0xFAC, Data = []\<rparr>])"
    using CreateSwap_early_failure [of "demoClient callFailNode" "[]" demoLib ethParams] g2 c2
    by blast
  let ?c = "demoClient (demoNode 7)"
  let ?h1 = "[EvPendingNonceAt 0x11, EvSuggestGasPrice, EvChainID]"
  let ?h2 = "[EvPendingNonceAt 0x11, EvSuggestGasPrice, EvChainID,
       EvCallContract \<lparr>To = Some 0xFAC, Data = []\<rparr>]"
  have g3: "getAuth demoLib ?c [] = (Inr (demoAuth 0), ?h1)"
    using demo_getAuth [of "[]"] by simp
  have c3: "calculateEscrowAddress demoLib ?c ?h1 q = (Inr 0xE5C0, ?h2)" for q
    using demo_calculate [of ?h1 q] by simp
  have t3: "Transact (client ?c) ?h2 (factoryAddress ?c) (escrowFactoryABI ?c)
      (depositAuth (demoAuth 0) q) ''deposit'' (depositArgs ?c q) = Inr demoTx" for q
    by (simp add: demoClient_def demoNode_def)
  note success = CreateSwap_early_failure [THEN conjunct2, THEN conjunct2, THEN conjunct2,
      THEN conjunct2, rule_format]
  have s3: "CreateSwap demoLib ?c [] q =
     ((Some demoTx, 0xE5C0, None),
      ?h2 @ [EvTransact (factoryAddress ?c) (escrowFactoryABI ?c)
               (depositAuth (demoAuth 0) q) ''deposit'' (depositArgs ?c q)])" for q
    using success [OF conjI [OF g3 conjI [OF c3 [of q] t3 [of q]]]] by simp
  have r3: "CreateSwap demoLib (demoClient (demoNode 7)) [] ethParams =
     ((Some demoTx, 0xE5C0, None),
      [EvPendingNonceAt 0x11, EvSuggestGasPrice, EvChainID,
       EvCallContract \<lparr>To = Some 0xFAC, Data = []\<rparr>,
       EvTransact 0xFAC [] (demoAuth 1000000000000000000) ''deposit''
         (depositArgs (demoClient (demoNode 7)) ethParams)])"
    using s3 [of ethParams]
    by (simp add: depositAuth_def ethParams_def demoAuth_def demoClient_def)
  have r3t: "CreateSwap demoLib (demoClient (demoNode 7)) [] tokenParams =
     ((Some demoTx, 0xE5C0, None),
      [EvPendingNonceAt 0x11, EvSuggestGasPrice, EvChainID,
       EvCallContract \<lparr>To = Some 0xFAC, Data = []\<rparr>,
       EvTransact 0xFAC [] (demoAuth 0) ''deposit''
         (depositArgs (demoClient (demoNode 7)) tokenParams)])"
    using s3 [of tokenParams]
    by (simp add: depositAuth_def tokenParams_def ethParams_def demoClient_def)
  note backward = CreateSwap_early_failure [THEN conjunct2, THEN conjunct2, THEN conjunct2,
      THEN conjunct1, rule_format]
  from backward [OF r3]
  obtain auth0 h1 h2 where
    ga: "getAuth demoLib (demoClient (demoNode 7)) [] = (Inr auth0, h1)"
    and ca: "calculateEscrowAddress demoLib (demoClient (demoNode 7)) h1 ethParams
        = (Inr 0xE5C0, h2)"
    by blast
  from ga have "h1 = [EvPendingNonceAt 0x11, EvSuggestGasPrice, EvChainID]"
    by (simp add: demo_getAuth)
  with ca have r4: "calculateEscrowAddress demoLib (demoClient (demoNode 7))
        [EvPendingNonceAt 0x11, EvSuggestGasPrice, EvChainID] ethParams =
     (Inr 0xE5C0,
      [EvPendingNonceAt 0x11, EvSuggestGasPrice, EvChainID,
       EvCallContract \<lparr>To = Some 0xFAC, Data = []\<rparr>])"
    by (simp add: demo_calculate)
  from r1 r2 r3 r3t r4 show ?thesis by (intro conjI)
qed

text \<open>
  C4. Address resolution is deterministic: two clients with the same adapter address,
  factory address and factory ABI, started from any two logs against a node that answers
  the read-only call as a function of the call message, return the same result for the
  same parameters. The one request a resolution issues is the call to the factory whose
  data is the packing of \<open>calculateEscrowAddress\<close> with the adapter address followed by
  claimer, claim commitment, refund commitment, first timeout, second timeout, asset and
  value; when packing fails it issues none.
\<close>

theorem calculateEscrowAddress_deterministic:
  assumes "adapterAddress c = adapterAddress c'"
    and "factoryAddress c = factoryAddress c'"
    and "escrowFactoryABI c = escrowFactoryABI c'"
    and "\<forall>m. CallContract (client c) h m = CallContract (client c') h' m"
  shows "fst (calculateEscrowAddress L c h p) = fst (calculateEscrowAddress L c' h' p)
    \<and> issued h (snd (calculateEscrowAddress L c h p)) =
        (case Pack L (escrowFactoryABI c) ''calculateEscrowAddress''
                [VAddress (adapterAddress c),
                 VAddress (SwapParams.Claimer p),
                 VBytes32 (SwapParams.ClaimCommitment p),
                 VBytes32 (SwapParams.RefundCommitment p),
                 VBigInt (SwapParams.Timeout1 p),
                 VBigInt (SwapParams.Timeout2 p),
                 VAddress (SwapParams.Asset p),
                 VBigInt (SwapParams.Value p)] of
           Inl e \<Rightarrow> []
         | Inr data \<Rightarrow> [EvCallContract \<lparr>To = Some (factoryAddress c), Data = data\<rparr>])"
proof
  show "fst (calculateEscrowAddress L c h p) = fst (calculateEscrowAddress L c' h' p)"
    using assms by (simp add: calculateEscrowAddress_def Let_def split: sum.splits)
next
  show "issued h (snd (calculateEscrowAddress L c h p)) =
        (case Pack L (escrowFactoryABI c) ''calculateEscrowAddress''
                [VAddress (adapterAddress c),
                 VAddress (SwapParams.Claimer p),
                 VBytes32 (SwapParams.ClaimCommitment p),
                 VBytes32 (SwapParams.RefundCommitment p),
                 VBigInt (SwapParams.Timeout1 p),
                 VBigInt (SwapParams.Timeout2 p),
                 VAddress (SwapParams.Asset p),
                 VBigInt (SwapParams.Value p)] of
           Inl e \<Rightarrow> []
         | Inr data \<Rightarrow> [EvCallContract \<lparr>To = Some (factoryAddress c), Data = data\<rparr>])"
    by (simp add: calculateEscrowAddress_def Let_def issued_def split: sum.splits)
qed

theorem calculateEscrowAddress_deterministic_witness:
  "fst (calculateEscrowAddress demoLib (demoClient (demoNode 7)) [] ethParams) = Inr 0xE5C0
   \<and> fst (calculateEscrowAddress demoLib otherClient [EvChainID, EvSuggestGasPrice] ethParams)
       = Inr 0xE5C0
   \<and> issued [] (snd (calculateEscrowAddress demoLib (demoClient (demoNode 7)) [] ethParams))
       = [EvCallContract \<lparr>To = Some 0xFAC, Data = []\<rparr>]"
proof -
  let ?c = "demoClient (demoNode 7)"
  have a1: "adapterAddress ?c = adapterAddress otherClient"
    and a2: "factoryAddress ?c = factoryAddress otherClient"
    and a3: "escrowFactoryABI ?c = escrowFactoryABI otherClient"
    and a4: "\<forall>m. CallContract (client ?c) [] m
                = CallContract (client otherClient) [EvChainID, EvSuggestGasPrice] m"
    by (simp_all add: demoClient_def demoNode_def otherClient_def)
  note T = calculateEscrowAddress_deterministic [OF a1 a2 a3 a4, of demoLib ethParams]
  have v: "fst (calculateEscrowAddress demoLib ?c [] ethParams) = Inr 0xE5C0"
    by (simp add: demo_calculate)
  from T v have w: "fst (calculateEscrowAddress demoLib otherClient
      [EvChainID, EvSuggestGasPrice] ethParams) = Inr 0xE5C0"
    by simp
  from T have "issued [] (snd (calculateEscrowAddress demoLib ?c [] ethParams))
       = [EvCallContract \<lparr>To = Some 0xFAC, Data = []\<rparr>]"
    by (simp add: demoLib_def demoClient_def)
  with v w show ?thesis by blast
qed

text \<open>
  C1 (as amended). \<open>SwapParams\<close> is a plain struct with no validating constructor, and
  \<open>CreateSwap\<close> validates nothing locally. For every parameter set, also one with the
  first timeout not before the second, with value 0 or with the zero claimer: the first
  thing \<open>CreateSwap\<close> does is the pending-nonce read through the network handle; an error
  it returns is one handed up from go-ethereum or the node, never a validation error of
  the package; and against a node and a library that accept every request it succeeds
  and its last request is the deposit submission, carrying the parameters as given.
\<close>

theorem CreateSwap_no_local_validation:
  "(\<exists>evs. snd (CreateSwap L c h p)
            = h @ EvPendingNonceAt (PubkeyToAddress L (privateKey c)) # evs)
   \<and> (\<forall>e. snd (snd (fst (CreateSwap L c h p))) = Some e \<longrightarrow> (\<exists>m. e = ExtError m))
   \<and> ((\<forall>h' a. \<exists>n. PendingNonceAt (client c) h' a = Inr n)
       \<and> (\<forall>h'. \<exists>g. SuggestGasPrice (client c) h' = Inr g)
       \<and> (\<forall>h'. \<exists>i. ChainID (client c) h' = Inr i)
       \<and> (\<forall>k i. \<exists>opts. NewKeyedTransactorWithChainID L k i = Inr opts)
       \<and> (\<forall>a m args. \<exists>d. Pack L a m args = Inr d)
       \<and> (\<forall>h' m. \<exists>r. CallContract (client c) h' m = Inr r)
       \<and> (\<forall>a m r. \<exists>x. UnpackAddress L a m r = Inr x)
       \<and> (\<forall>h' a i opts m args. \<exists>tx. Transact (client c) h' a i opts m args = Inr tx)
      \<longrightarrow> (\<exists>tx addr. fst (CreateSwap L c h p) = (Some tx, addr, None))
          \<and> (\<exists>evs auth. snd (CreateSwap L c h p) =
                evs @ [EvTransact (factoryAddress c) (escrowFactoryABI c) auth ''deposit''
                         (depositArgs c p)]))"
proof (intro conjI)
  obtain r h1 where g: "getAuth L c h = (r, h1)" by (cases "getAuth L c h")
  from getAuth_log [of L c h] g obtain evs1 where
    h1: "h1 = h @ EvPendingNonceAt (PubkeyToAddress L (privateKey c)) # evs1" by auto
  show "\<exists>evs. snd (CreateSwap L c h p)
            = h @ EvPendingNonceAt (PubkeyToAddress L (privateKey c)) # evs"
  proof (cases r)
    case (Inl e)
    with g h1 show ?thesis by (simp add: CreateSwap_auth_fails)
  next
    case (Inr auth0)
    with g have g': "getAuth L c h = (Inr auth0, h1)" by simp
    obtain r2 h2 where ca: "calculateEscrowAddress L c h1 p = (r2, h2)"
      by (cases "calculateEscrowAddress L c h1 p")
    from calculateEscrowAddress_issued [OF ca] obtain evs2 where h2: "h2 = h1 @ evs2"
      by blast
    show ?thesis
    proof (cases r2)
      case (Inl e)
      with g' ca have "CreateSwap L c h p = ((None, 0, Some e), h2)"
        by (simp add: CreateSwap_resolve_fails)
      with h1 h2 show ?thesis by simp
    next
      case (Inr addr)
      with ca have "calculateEscrowAddress L c h1 p = (Inr addr, h2)" by simp
      from CreateSwap_submits [OF g' this] h1 h2 show ?thesis by simp
    qed
  qed
next
  show "\<forall>e. snd (snd (fst (CreateSwap L c h p))) = Some e \<longrightarrow> (\<exists>m. e = ExtError m)"
  proof (intro allI impI)
    fix e assume e: "snd (snd (fst (CreateSwap L c h p))) = Some e"
    obtain r h1 where g: "getAuth L c h = (r, h1)" by (cases "getAuth L c h")
    show "\<exists>m. e = ExtError m"
    proof (cases r)
      case (Inl e')
      with g e CreateSwap_auth_fails [of L c h e' h1 p] getAuth_Inl_ext [of L c h e' h1]
      show ?thesis by simp
    next
      case (Inr auth0)
      with g have g': "getAuth L c h = (Inr auth0, h1)" by simp
      obtain r2 h2 where ca: "calculateEscrowAddress L c h1 p = (r2, h2)"
        by (cases "calculateEscrowAddress L c h1 p")
      show ?thesis
      proof (cases r2)
        case (Inl e')
        with g' ca e CreateSwap_resolve_fails [of L c h auth0 h1 p e' h2]
          calculateEscrowAddress_Inl_ext [of L c h1 p e' h2]
        show ?thesis by simp
      next
        case (Inr addr)
        with ca have "calculateEscrowAddress L c h1 p = (Inr addr, h2)" by simp
        from CreateSwap_submits [OF g' this] e show ?thesis
          by (auto split: sum.splits)
      qed
    qed
  qed
next
  show "(\<forall>h' a. \<exists>n. PendingNonceAt (client c) h' a = Inr n)
       \<and> (\<forall>h'. \<exists>g. SuggestGasPrice (client c) h' = Inr g)
       \<and> (\<forall>h'. \<exists>i. ChainID (client c) h' = Inr i)
       \<and> (\<forall>k i. \<exists>opts. NewKeyedTransactorWithChainID L k i = Inr opts)
       \<and> (\<forall>a m args. \<exists>d. Pack L a m args = Inr d)
       \<and> (\<forall>h' m. \<exists>r. CallContract (client c) h' m = Inr r)
       \<and> (\<forall>a m r. \<exists>x. UnpackAddress L a m r = Inr x)
       \<and> (\<forall>h' a i opts m args. \<exists>tx. Transact (client c) h' a i opts m args = Inr tx)
      \<longrightarrow> (\<exists>tx addr. fst (CreateSwap L c h p) = (Some tx, addr, None))
          \<and> (\<exists>evs auth. snd (CreateSwap L c h p) =
                evs @ [EvTransact (factoryAddress c) (escrowFactoryABI c) auth ''deposit''
                         (depositArgs c p)])"
  proof
    assume acc: "(\<forall>h' a. \<exists>n. PendingNonceAt (client c) h' a = Inr n)
       \<and> (\<forall>h'. \<exists>g. SuggestGasPrice (client c) h' = Inr g)
       \<and> (\<forall>h'. \<exists>i. ChainID (client c) h' = Inr i)
       \<and> (\<forall>k i. \<exists>opts. NewKeyedTransactorWithChainID L k i = Inr opts)
       \<and> (\<forall>a m args. \<exists>d. Pack L a m args = Inr d)
       \<and> (\<forall>h' m. \<exists>r. CallContract (client c) h' m = Inr r)
       \<and> (\<forall>a m r. \<exists>x. UnpackAddress L a m r = Inr x)
       \<and> (\<forall>h' a i opts m args. \<exists>tx. Transact (client c) h' a i opts m args = Inr tx)"
    obtain r h1 where g: "getAuth L c h = (r, h1)" by (cases "getAuth L c h")
    have "\<exists>auth0. r = Inr auth0"
    proof (cases r)
      case (Inl e)
      have False using g Inl acc
        apply (simp add: getAuth_def Let_def split: sum.splits)
        by (metis Inl_Inr_False)+
      then show ?thesis ..
    qed simp
    then obtain auth0 where g': "getAuth L c h = (Inr auth0, h1)" using g by blast
    obtain r2 h2 where ca: "calculateEscrowAddress L c h1 p = (r2, h2)"
      by (cases "calculateEscrowAddress L c h1 p")
    have "\<exists>addr. r2 = Inr addr"
    proof (cases r2)
      case (Inl e)
      have False using ca Inl acc
        apply (simp add: calculateEscrowAddress_def Let_def split: sum.splits)
        by (metis Inl_Inr_False)+
      then show ?thesis ..
    qed simp
    then obtain addr where ca': "calculateEscrowAddress L c h1 p = (Inr addr, h2)"
      using ca by blast
    from acc have tr: "\<forall>h' a i opts m args. \<exists>tx. Transact (client c) h' a i opts m args = Inr tx"
      by (elim conjE)
    have "\<exists>tx. Transact (client c) h2 (factoryAddress c) (escrowFactoryABI c)
         (depositAuth auth0 p) ''deposit'' (depositArgs c p) = Inr tx"
      using tr by (elim allE)
    then obtain tx where
      "Transact (client c) h2 (factoryAddress c) (escrowFactoryABI c) (depositAuth auth0 p)
         ''deposit'' (depositArgs c p) = Inr tx" ..
    with CreateSwap_submits [OF g' ca']
    have res: "CreateSwap L c h p =
        ((Some tx, addr, None),
         h2 @ [EvTransact (factoryAddress c) (escrowFactoryABI c) (depositAuth auth0 p)
                 ''deposit'' (depositArgs c p)])"
      by simp
    have "\<exists>tx addr. fst (CreateSwap L c h p) = (Some tx, addr, None)"
      by (simp add: res)
    moreover have "\<exists>evs auth. snd (CreateSwap L c h p) =
                evs @ [EvTransact (factoryAddress c) (escrowFactoryABI c) auth ''deposit''
                         (depositArgs c p)]"
      unfolding res by (intro exI) simp
    ultimately show "(\<exists>tx addr. fst (CreateSwap L c h p) = (Some tx, addr, None))
          \<and> (\<exists>evs auth. snd (CreateSwap L c h p) =
                evs @ [EvTransact (factoryAddress c) (escrowFactoryABI c) auth ''deposit''
                         (depositArgs c p)])"
      by (rule conjI)
  qed
qed

theorem CreateSwap_no_local_validation_witness:
  "(\<exists>tx addr. fst (CreateSwap demoLib (demoClient (demoNode 7)) []
        (ethParams\<lparr>SwapParams.Claimer := 0, SwapParams.Timeout1 := Some 7200,
           SwapParams.Timeout2 := Some 3600, SwapParams.Value := Some 0\<rparr>))
      = (Some tx, addr, None))
   \<and> (\<exists>evs. snd (CreateSwap demoLib (demoClient (demoNode 7)) []
        (ethParams\<lparr>SwapParams.Claimer := 0, SwapParams.Timeout1 := Some 7200,
           SwapParams.Timeout2 := Some 3600, SwapParams.Value := Some 0\<rparr>))
      = EvPendingNonceAt 0x11 # evs)
   \<and> (\<exists>evs auth. snd (CreateSwap demoLib (demoClient (demoNode 7)) []
        (ethParams\<lparr>SwapParams.Claimer := 0, SwapParams.Timeout1 := Some 7200,
           SwapParams.Timeout2 := Some 3600, SwapParams.Value := Some 0\<rparr>))
      = evs @ [EvTransact 0xFAC [] auth ''deposit''
                 [VAddress 0xADA, VAddress 0, VBytes32 0xC1, VBytes32 0xC2,
                  VBigInt (Some 7200), VBigInt (Some 3600), VAddress 0, VBigInt (Some 0)]])"
proof -
  let ?c = "demoClient (demoNode 7)"
  let ?p = "ethParams\<lparr>SwapParams.Claimer := 0, SwapParams.Timeout1 := Some 7200,
           SwapParams.Timeout2 := Some 3600, SwapParams.Value := Some 0\<rparr>"
  note T = CreateSwap_no_local_validation [of demoLib ?c "[]" ?p]
  have acc: "(\<forall>h' a. \<exists>n. PendingNonceAt (client ?c) h' a = Inr n)
       \<and> (\<forall>h'. \<exists>g. SuggestGasPrice (client ?c) h' = Inr g)
       \<and> (\<forall>h'. \<exists>i. ChainID (client ?c) h' = Inr i)
       \<and> (\<forall>k i. \<exists>opts. NewKeyedTransactorWithChainID demoLib k i = Inr opts)
       \<and> (\<forall>a m args. \<exists>d. Pack demoLib a m args = Inr d)
       \<and> (\<forall>h' m. \<exists>r. CallContract (client ?c) h' m = Inr r)
       \<and> (\<forall>a m r. \<exists>x. UnpackAddress demoLib a m r = Inr x)
       \<and> (\<forall>h' a i opts m args. \<exists>tx. Transact (client ?c) h' a i opts m args = Inr tx)"
    by (simp add: demoLib_def demoClient_def demoNode_def)
  note accepted = T [THEN conjunct2, THEN conjunct2, rule_format, OF acc]
  from accepted have s: "\<exists>tx addr. fst (CreateSwap demoLib ?c [] ?p) = (Some tx, addr, None)"
    by (rule conjunct1)
  from accepted have "\<exists>evs auth. snd (CreateSwap demoLib ?c [] ?p) =
      evs @ [EvTransact (factoryAddress ?c) (escrowFactoryABI ?c) auth ''deposit''
               (depositArgs ?c ?p)]"
    by (rule conjunct2)
  then have d: "\<exists>evs auth. snd (CreateSwap demoLib ?c [] ?p) =
      evs @ [EvTransact 0xFAC [] auth ''deposit''
                 [VAddress 0xADA, VAddress 0, VBytes32 0xC1, VBytes32 0xC2,
                  VBigInt (Some 7200), VBigInt (Some 3600), VAddress 0, VBigInt (Some 0)]]"
    by (simp add: depositArgs_def demoClient_def ethParams_def)
  from T have "\<exists>evs. snd (CreateSwap demoLib ?c [] ?p)
      = [] @ EvPendingNonceAt (PubkeyToAddress demoLib (privateKey ?c)) # evs"
    by (rule conjunct1)
  then have l: "\<exists>evs. snd (CreateSwap demoLib ?c [] ?p) = EvPendingNonceAt 0x11 # evs"
    by (simp add: demoLib_def demoClient_def)
  from s l d show ?thesis by (intro conjI)
qed

text \<open>
  The claim as stated fails on the code: three parameter sets, each breaking one of the
  three conditions (first timeout after the second, value 0, zero claimer), are accepted
  by \<open>CreateSwap\<close> against a node that accepts every request. The deposit is submitted,
  and the pending-nonce read, the gas-price read, the chain-id read and the address
  resolution have all gone to the node by then.
\<close>

theorem CreateSwap_validation_counterexample:
  "fst (CreateSwap demoLib (demoClient (demoNode 7)) []
          (ethParams\<lparr>SwapParams.Timeout1 := Some 7200, SwapParams.Timeout2 := Some 3600\<rparr>))
     = (Some demoTx, 0xE5C0, None)
   \<and> fst (CreateSwap demoLib (demoClient (demoNode 7)) []
          (ethParams\<lparr>SwapParams.Value := Some 0\<rparr>))
     = (Some demoTx, 0xE5C0, None)
   \<and> fst (CreateSwap demoLib (demoClient (demoNode 7)) []
          (ethParams\<lparr>SwapParams.Claimer := 0\<rparr>))
     = (Some demoTx, 0xE5C0, None)
   \<and> take 4 (snd (CreateSwap demoLib (demoClient (demoNode 7)) []
          (ethParams\<lparr>SwapParams.Claimer := 0\<rparr>)))
     = [EvPendingNonceAt 0x11, EvSuggestGasPrice, EvChainID,
        EvCallContract \<lparr>To = Some 0xFAC, Data = []\<rparr>]"
  by (simp add: demo_CreateSwap)

lemma ExtError_not_revert: "ExtError m \<notin> ContractRevertErrors"
  by (simp add: ContractRevertErrors_def)

text \<open>
  C2 (as amended). \<open>ClaimSwap\<close> and \<open>RefundSwap\<close> classify nothing: every error they
  return is the error of a signing-context read or of the submission, handed up as it
  came, and never one of the seven contract-revert sentinels; when the node rejects the
  submission with an error, that error is the result, and when building the signing
  context fails, its error is the result.
\<close>

theorem ClaimRefund_errors_unclassified:
  "(\<forall>e. fst (ClaimSwap L c h a s) = Inl e \<longrightarrow>
        (\<exists>m. e = ExtError m) \<and> e \<notin> ContractRevertErrors)
   \<and> (\<forall>auth h1 m. getAuth L c h = (Inr auth, h1)
         \<and> Transact (client c) h1 a (escrowSrcABI c) auth ''withdraw'' [VBytes32 s] = Inl m
        \<longrightarrow> fst (ClaimSwap L c h a s) = Inl (ExtError m))
   \<and> (\<forall>e. fst (RefundSwap L c h a k) = Inl e \<longrightarrow>
        (\<exists>m. e = ExtError m) \<and> e \<notin> ContractRevertErrors)
   \<and> (\<forall>auth h1 m. getAuth L c h = (Inr auth, h1)
         \<and> Transact (client c) h1 a (escrowSrcABI c) auth ''refund'' [VBytes32 k] = Inl m
        \<longrightarrow> fst (RefundSwap L c h a k) = Inl (ExtError m))
   \<and> (\<forall>e h1. getAuth L c h = (Inl e, h1)
        \<longrightarrow> fst (ClaimSwap L c h a s) = Inl e \<and> fst (RefundSwap L c h a k) = Inl e)"
proof (intro conjI allI impI)
  fix e assume e: "fst (ClaimSwap L c h a s) = Inl e"
  obtain r h1 where g: "getAuth L c h = (r, h1)" by (cases "getAuth L c h")
  have "\<exists>m. e = ExtError m"
  proof (cases r)
    case (Inl e')
    with g e ClaimSwap_auth_fails [of L c h e' h1 a s] getAuth_Inl_ext [of L c h e' h1]
    show ?thesis by simp
  next
    case (Inr auth)
    with g have "getAuth L c h = (Inr auth, h1)" by simp
    from ClaimSwap_submits [OF this, of a s] e show ?thesis by (auto split: sum.splits)
  qed
  then show "\<exists>m. e = ExtError m" and "e \<notin> ContractRevertErrors"
    using ExtError_not_revert by auto
next
  fix auth h1 m
  assume "getAuth L c h = (Inr auth, h1)
         \<and> Transact (client c) h1 a (escrowSrcABI c) auth ''withdraw'' [VBytes32 s] = Inl m"
  then show "fst (ClaimSwap L c h a s) = Inl (ExtError m)"
    using ClaimSwap_submits [of L c h auth h1 a s] by simp
next
  fix e assume e: "fst (RefundSwap L c h a k) = Inl e"
  obtain r h1 where g: "getAuth L c h = (r, h1)" by (cases "getAuth L c h")
  have "\<exists>m. e = ExtError m"
  proof (cases r)
    case (Inl e')
    with g e RefundSwap_auth_fails [of L c h e' h1 a k] getAuth_Inl_ext [of L c h e' h1]
    show ?thesis by simp
  next
    case (Inr auth)
    with g have "getAuth L c h = (Inr auth, h1)" by simp
    from RefundSwap_submits [OF this, of a k] e show ?thesis by (auto split: sum.splits)
  qed
  then show "\<exists>m. e = ExtError m" and "e \<notin> ContractRevertErrors"
    using ExtError_not_revert by auto
next
  fix auth h1 m
  assume "getAuth L c h = (Inr auth, h1)
         \<and> Transact (client c) h1 a (escrowSrcABI c) auth ''refund'' [VBytes32 k] = Inl m"
  then show "fst (RefundSwap L c h a k) = Inl (ExtError m)"
    using RefundSwap_submits [of L c h auth h1 a k] by simp
next
  fix e h1 assume "getAuth L c h = (Inl e, h1)"
  then show "fst (ClaimSwap L c h a s) = Inl e"
    by (simp add: ClaimSwap_auth_fails)
next
  fix e h1 assume "getAuth L c h = (Inl e, h1)"
  then show "fst (RefundSwap L c h a k) = Inl e"
    by (simp add: RefundSwap_auth_fails)
qed

lemma revert_getAuth:
  "getAuth demoLib (demoClient revertNode) h =
     (Inr (demoAuth 0), h @ [EvPendingNonceAt 0x11, EvSuggestGasPrice, EvChainID])"
  by (simp add: getAuth_def demoLib_def demoClient_def demoNode_def revertNode_def
      demoOpts_def demoAuth_def)

theorem ClaimRefund_errors_unclassified_witness:
  "fst (ClaimSwap demoLib (demoClient revertNode) [] 0xE5C0 0xBAD)
     = Inl (ExtError ''execution reverted: invalid secret'')
   \<and> fst (RefundSwap demoLib (demoClient revertNode) [] 0xE5C0 0xBAD)
     = Inl (ExtError ''execution reverted: invalid secret'')
   \<and> ExtError ''execution reverted: invalid secret'' \<notin> ContractRevertErrors
   \<and> fst (ClaimSwap demoLib (demoClient gasFailNode) [] 0xE5C0 0xBAD)
     = Inl (ExtError ''connection refused'')
   \<and> fst (RefundSwap demoLib (demoClient gasFailNode) [] 0xE5C0 0xBAD)
     = Inl (ExtError ''connection refused'')"
proof -
  let ?c = "demoClient revertNode"
  let ?h1 = "[EvPendingNonceAt 0x11, EvSuggestGasPrice, EvChainID]"
  note T = ClaimRefund_errors_unclassified [of demoLib ?c "[]" "0xE5C0" "0xBAD" "0xBAD"]
  have g: "getAuth demoLib ?c [] = (Inr (demoAuth 0), ?h1)"
    using revert_getAuth [of "[]"] by simp
  have t1: "Transact (client ?c) ?h1 0xE5C0 (escrowSrcABI ?c) (demoAuth 0) ''withdraw''
      [VBytes32 0xBAD] = Inl ''execution reverted: invalid secret''"
    by (simp add: demoClient_def revertNode_def demoNode_def)
  have t2: "Transact (client ?c) ?h1 0xE5C0 (escrowSrcABI ?c) (demoAuth 0) ''refund''
      [VBytes32 0xBAD] = Inl ''execution reverted: invalid secret''"
    by (simp add: demoClient_def revertNode_def demoNode_def)
  from T g t1 have c1: "fst (ClaimSwap demoLib ?c [] 0xE5C0 0xBAD)
     = Inl (ExtError ''execution reverted: invalid secret'')" by blast
  from T g t2 have c2: "fst (RefundSwap demoLib ?c [] 0xE5C0 0xBAD)
     = Inl (ExtError ''execution reverted: invalid secret'')" by blast
  from T c1 have c3: "ExtError ''execution reverted: invalid secret'' \<notin> ContractRevertErrors"
    by blast
  have gf: "getAuth demoLib (demoClient gasFailNode) [] =
      (Inl (ExtError ''connection refused''), [EvPendingNonceAt 0x11, EvSuggestGasPrice])"
    by (simp add: getAuth_def demoLib_def demoClient_def demoNode_def gasFailNode_def)
  note read_fails = ClaimRefund_errors_unclassified
    [of demoLib "demoClient gasFailNode" "[]" "0xE5C0" "0xBAD" "0xBAD",
     THEN conjunct2, THEN conjunct2, THEN conjunct2, THEN conjunct2, rule_format, OF gf]
  from read_fails have c4: "fst (ClaimSwap demoLib (demoClient gasFailNode) [] 0xE5C0 0xBAD)
     = Inl (ExtError ''connection refused'')" by (rule conjunct1)
  from read_fails have c5: "fst (RefundSwap demoLib (demoClient gasFailNode) [] 0xE5C0 0xBAD)
     = Inl (ExtError ''connection refused'')" by (rule conjunct2)
  from c1 c2 c3 c4 c5 show ?thesis by (intro conjI)
qed

text \<open>
  The claim as stated fails on the code: a node that rejects the withdraw and the refund
  submission with its own error makes \<open>ClaimSwap\<close> and \<open>RefundSwap\<close> return that error
  as it came, and it is none of the seven sentinels.
\<close>

theorem ClaimRefund_revert_counterexample:
  "fst (ClaimSwap demoLib (demoClient revertNode) [] 0xE5C0 0xBAD)
     = Inl (ExtError ''execution reverted: invalid secret'')
   \<and> fst (RefundSwap demoLib (demoClient revertNode) [] 0xE5C0 0xBAD)
     = Inl (ExtError ''execution reverted: invalid secret'')
   \<and> ExtError ''execution reverted: invalid secret''
       \<notin> {ErrInvalidSecret, ErrInvalidSwapState, ErrTimeoutNotReached, ErrTimeoutExceeded,
           ErrSwapAlreadyExists, ErrSwapDoesNotExist, ErrInsufficientFunds}"
proof -
  have "ClaimSwap demoLib (demoClient revertNode) [] 0xE5C0 0xBAD
      = (Inl (ExtError ''execution reverted: invalid secret''),
         [EvPendingNonceAt 0x11, EvSuggestGasPrice, EvChainID,
          EvTransact 0xE5C0 [] (demoAuth 0) ''withdraw'' [VBytes32 0xBAD]])"
    using ClaimSwap_submits [OF revert_getAuth, of "[]" "0xE5C0" "0xBAD"]
    by (simp add: demoClient_def revertNode_def demoNode_def)
  moreover have "RefundSwap demoLib (demoClient revertNode) [] 0xE5C0 0xBAD
      = (Inl (ExtError ''execution reverted: invalid secret''),
         [EvPendingNonceAt 0x11, EvSuggestGasPrice, EvChainID,
          EvTransact 0xE5C0 [] (demoAuth 0) ''refund'' [VBytes32 0xBAD]])"
    using RefundSwap_submits [OF revert_getAuth, of "[]" "0xE5C0" "0xBAD"]
    by (simp add: demoClient_def revertNode_def demoNode_def)
  ultimately show ?thesis by simp
qed

text \<open>
  C6 (as amended). \<open>GetSwapState\<close> maps nothing: when packing, the call and decoding
  succeed, it returns the decoded \<open>uint8\<close> as it is, whatever its value; the only errors
  it returns are those of these three steps.
\<close>

theorem GetSwapState_returns_raw_code:
  "(\<forall>data result state.
       Pack L (escrowSrcABI c) ''getState'' [] = Inr data
     \<and> CallContract (client c) h \<lparr>To = Some a, Data = data\<rparr> = Inr result
     \<and> UnpackUint8 L (escrowSrcABI c) ''getState'' result = Inr state
     \<longrightarrow> GetSwapState L c h a = (Inr state, h @ [EvCallContract \<lparr>To = Some a, Data = data\<rparr>]))
   \<and> (\<forall>e. fst (GetSwapState L c h a) = Inl e \<longrightarrow>
        (\<exists>m. e = ExtError m
          \<and> (Pack L (escrowSrcABI c) ''getState'' [] = Inl m
             \<or> (\<exists>data. Pack L (escrowSrcABI c) ''getState'' [] = Inr data
                  \<and> (CallContract (client c) h \<lparr>To = Some a, Data = data\<rparr> = Inl m
                     \<or> (\<exists>result.
                          CallContract (client c) h \<lparr>To = Some a, Data = data\<rparr> = Inr result
                        \<and> UnpackUint8 L (escrowSrcABI c) ''getState'' result = Inl m))))))"
  by (auto simp: GetSwapState_def Let_def split: sum.splits)

lemma demo_GetSwapState:
  "GetSwapState demoLib (demoClient (stateNode k)) [] a =
     (Inr k, [EvCallContract \<lparr>To = Some a, Data = []\<rparr>])"
  by (simp add: GetSwapState_def demoLib_def demoClient_def stateNode_def demoNode_def)

theorem GetSwapState_returns_raw_code_witness:
  "GetSwapState demoLib (demoClient (stateNode 200)) [] 0xE5C0 =
     (Inr 200, [EvCallContract \<lparr>To = Some 0xE5C0, Data = []\<rparr>])"
proof -
  let ?c = "demoClient (stateNode 200)"
  have p: "Pack demoLib (escrowSrcABI ?c) ''getState'' [] = Inr []"
    by (simp add: demoLib_def)
  have q: "CallContract (client ?c) [] \<lparr>To = Some 0xE5C0, Data = []\<rparr>
      = Inr (replicate 31 0 @ [200])"
    by (simp add: demoClient_def stateNode_def demoNode_def)
  have u: "UnpackUint8 demoLib (escrowSrcABI ?c) ''getState'' (replicate 31 0 @ [200]) = Inr 200"
    by (simp add: demoLib_def)
  from GetSwapState_returns_raw_code [of demoLib ?c "[]" "0xE5C0"] p q u
  have "GetSwapState demoLib ?c [] 0xE5C0 =
     (Inr 200, [] @ [EvCallContract \<lparr>To = Some 0xE5C0, Data = []\<rparr>])"
    by blast
  then show ?thesis by simp
qed

text \<open>
  The claim as stated fails on the code: five different codes come back from
  \<open>GetSwapState\<close> as successful results, so whichever four codes the deployed contract
  uses for its four states, a code outside them is returned to the caller and not
  reported as a decode error.
\<close>

theorem GetSwapState_unknown_code_counterexample:
  "fst (GetSwapState demoLib (demoClient (stateNode 0)) [] 0xE5C0) = Inr 0
   \<and> fst (GetSwapState demoLib (demoClient (stateNode 1)) [] 0xE5C0) = Inr 1
   \<and> fst (GetSwapState demoLib (demoClient (stateNode 2)) [] 0xE5C0) = Inr 2
   \<and> fst (GetSwapState demoLib (demoClient (stateNode 3)) [] 0xE5C0) = Inr 3
   \<and> fst (GetSwapState demoLib (demoClient (stateNode 255)) [] 0xE5C0) = Inr 255"
  by (simp add: demo_GetSwapState)

text \<open>
  C9. \<open>ConvertSwapCreatorSwapToParams\<close> copies claimer, claim commitment, refund
  commitment, both timeouts, asset and value unchanged. The round trip preserves every
  field: writing the seven converted fields back into the record they came from gives
  that record again, and converting the record built from the seven fields of a
  \<open>SwapParams\<close> gives that \<open>SwapParams\<close> again.
\<close>

theorem ConvertSwapCreatorSwapToParams_preserves_fields:
  "SwapParams.Claimer (ConvertSwapCreatorSwapToParams swap) = SwapCreatorSwap.Claimer swap
   \<and> SwapParams.ClaimCommitment (ConvertSwapCreatorSwapToParams swap)
       = SwapCreatorSwap.ClaimCommitment swap
   \<and> SwapParams.RefundCommitment (ConvertSwapCreatorSwapToParams swap)
       = SwapCreatorSwap.RefundCommitment swap
   \<and> SwapParams.Timeout1 (ConvertSwapCreatorSwapToParams swap) = SwapCreatorSwap.Timeout1 swap
   \<and> SwapParams.Timeout2 (ConvertSwapCreatorSwapToParams swap) = SwapCreatorSwap.Timeout2 swap
   \<and> SwapParams.Asset (ConvertSwapCreatorSwapToParams swap) = SwapCreatorSwap.Asset swap
   \<and> SwapParams.Value (ConvertSwapCreatorSwapToParams swap) = SwapCreatorSwap.Value swap
   \<and> swap\<lparr>SwapCreatorSwap.Claimer := SwapParams.Claimer (ConvertSwapCreatorSwapToParams swap),
           SwapCreatorSwap.ClaimCommitment :=
             SwapParams.ClaimCommitment (ConvertSwapCreatorSwapToParams swap),
           SwapCreatorSwap.RefundCommitment :=
             SwapParams.RefundCommitment (ConvertSwapCreatorSwapToParams swap),
           SwapCreatorSwap.Timeout1 := SwapParams.Timeout1 (ConvertSwapCreatorSwapToParams swap),
           SwapCreatorSwap.Timeout2 := SwapParams.Timeout2 (ConvertSwapCreatorSwapToParams swap),
           SwapCreatorSwap.Asset := SwapParams.Asset (ConvertSwapCreatorSwapToParams swap),
           SwapCreatorSwap.Value := SwapParams.Value (ConvertSwapCreatorSwapToParams swap)\<rparr>
       = swap
   \<and> ConvertSwapCreatorSwapToParams
        (\<lparr>SwapCreatorSwap.Claimer = SwapParams.Claimer p,
          SwapCreatorSwap.ClaimCommitment = SwapParams.ClaimCommitment p,
          SwapCreatorSwap.RefundCommitment = SwapParams.RefundCommitment p,
          SwapCreatorSwap.Timeout1 = SwapParams.Timeout1 p,
          SwapCreatorSwap.Timeout2 = SwapParams.Timeout2 p,
          SwapCreatorSwap.Asset = SwapParams.Asset p,
          SwapCreatorSwap.Value = SwapParams.Value p\<rparr>) = p"
  by (simp add: ConvertSwapCreatorSwapToParams_def)

text \<open>
  The two constructors on missing configuration. \<open>NewXMREscrowClient\<close> fails with an
  error when the network handle, the swap-registry reference or the signing key is nil,
  or the factory or the adapter address is the zero address; with all five present and
  the three ABI loaders succeeding, it returns the client built from them. With a zero
  adapter address and the rest present, the error is "adapter address is required". The
  constructor issues no request: its outcome for one handle is its outcome for any other,
  with the stored handle exchanged. \<open>InitializeEscrowClient\<close>, given an \<open>EthClient\<close>,
  reads the handle and the key from it, returns an error in the same cases and the same
  client when all are present.
\<close>

theorem client_construction_configuration:
  "((cl = None \<or> sc = None \<or> pk = None \<or> f = 0 \<or> a = 0)
      \<longrightarrow> (\<exists>e. NewXMREscrowClient L cl sc f a pk = Inl e))
   \<and> (\<forall>nd s k src fac ada.
        cl = Some nd \<and> sc = Some s \<and> pk = Some k \<and> f \<noteq> 0 \<and> a \<noteq> 0
        \<and> loadEscrowSrcABI L = Inr src \<and> loadEscrowFactoryABI L = Inr fac
        \<and> loadSwapAdapterABI L = Inr ada
       \<longrightarrow> NewXMREscrowClient L cl sc f a pk =
            Inr \<lparr>client = nd, factoryAddress = f, adapterAddress = a, swapCreator = s,
                 privateKey = k, escrowSrcABI = src, escrowFactoryABI = fac,
                 swapAdapterABI = ada\<rparr>)
   \<and> (cl \<noteq> None \<and> sc \<noteq> None \<and> pk \<noteq> None \<and> f \<noteq> 0
       \<longrightarrow> NewXMREscrowClient L cl sc f 0 pk = Inl (ErrorString ''adapter address is required''))
   \<and> (\<forall>nd nd'. map_sum id (client_update (\<lambda>_. nd')) (NewXMREscrowClient L (Some nd) sc f a pk)
         = NewXMREscrowClient L (Some nd') sc f a pk)
   \<and> (((\<exists>e'. ec = Some e' \<and> (Raw e' = None \<or> PrivateKey e' = None))
        \<or> sc = None \<or> f = 0 \<or> a = 0)
      \<longrightarrow> (\<exists>e. InitializeEscrowClient L ec sc f a = Inl e \<and> (\<forall>m. e \<noteq> Panic m)))
   \<and> (\<forall>e' nd s k src fac ada.
        ec = Some e' \<and> Raw e' = Some nd \<and> PrivateKey e' = Some k \<and> sc = Some s
        \<and> f \<noteq> 0 \<and> a \<noteq> 0
        \<and> loadEscrowSrcABI L = Inr src \<and> loadEscrowFactoryABI L = Inr fac
        \<and> loadSwapAdapterABI L = Inr ada
       \<longrightarrow> InitializeEscrowClient L ec sc f a =
            Inr \<lparr>client = nd, factoryAddress = f, adapterAddress = a, swapCreator = s,
                 privateKey = k, escrowSrcABI = src, escrowFactoryABI = fac,
                 swapAdapterABI = ada\<rparr>)"
proof (intro conjI)
  show "(cl = None \<or> sc = None \<or> pk = None \<or> f = 0 \<or> a = 0)
      \<longrightarrow> (\<exists>e. NewXMREscrowClient L cl sc f a pk = Inl e)"
    by (auto simp: NewXMREscrowClient_def split: option.splits sum.splits)
next
  show "\<forall>nd s k src fac ada.
        cl = Some nd \<and> sc = Some s \<and> pk = Some k \<and> f \<noteq> 0 \<and> a \<noteq> 0
        \<and> loadEscrowSrcABI L = Inr src \<and> loadEscrowFactoryABI L = Inr fac
        \<and> loadSwapAdapterABI L = Inr ada
       \<longrightarrow> NewXMREscrowClient L cl sc f a pk =
            Inr \<lparr>client = nd, factoryAddress = f, adapterAddress = a, swapCreator = s,
                 privateKey = k, escrowSrcABI = src, escrowFactoryABI = fac,
                 swapAdapterABI = ada\<rparr>"
    by (simp add: NewXMREscrowClient_def)
next
  show "cl \<noteq> None \<and> sc \<noteq> None \<and> pk \<noteq> None \<and> f \<noteq> 0
       \<longrightarrow> NewXMREscrowClient L cl sc f 0 pk = Inl (ErrorString ''adapter address is required'')"
    by (auto simp: NewXMREscrowClient_def)
next
  show "\<forall>nd nd'. map_sum id (client_update (\<lambda>_. nd')) (NewXMREscrowClient L (Some nd) sc f a pk)
         = NewXMREscrowClient L (Some nd') sc f a pk"
    by (simp add: NewXMREscrowClient_def split: option.splits sum.splits)
next
  show "((\<exists>e'. ec = Some e' \<and> (Raw e' = None \<or> PrivateKey e' = None))
        \<or> sc = None \<or> f = 0 \<or> a = 0)
      \<longrightarrow> (\<exists>e. InitializeEscrowClient L ec sc f a = Inl e \<and> (\<forall>m. e \<noteq> Panic m))"
    by (auto simp: InitializeEscrowClient_def split: option.splits sum.splits)
next
  show "\<forall>e' nd s k src fac ada.
        ec = Some e' \<and> Raw e' = Some nd \<and> PrivateKey e' = Some k \<and> sc = Some s
        \<and> f \<noteq> 0 \<and> a \<noteq> 0
        \<and> loadEscrowSrcABI L = Inr src \<and> loadEscrowFactoryABI L = Inr fac
        \<and> loadSwapAdapterABI L = Inr ada
       \<longrightarrow> InitializeEscrowClient L ec sc f a =
            Inr \<lparr>client = nd, factoryAddress = f, adapterAddress = a, swapCreator = s,
                 privateKey = k, escrowSrcABI = src, escrowFactoryABI = fac,
                 swapAdapterABI = ada\<rparr>"
    by (simp add: InitializeEscrowClient_def NewXMREscrowClient_def)
qed

theorem client_construction_configuration_witness:
  "NewXMREscrowClient demoLib (Some (demoNode 7)) (Some (SwapCreator 0x5C)) 0xFAC 0 (Some 0x11)
      = Inl (ErrorString ''adapter address is required'')
   \<and> (\<exists>e. NewXMREscrowClient demoLib None (Some (SwapCreator 0x5C)) 0xFAC 0xADA (Some 0x11)
          = Inl e)
   \<and> NewXMREscrowClient demoLib (Some (demoNode 7)) (Some (SwapCreator 0x5C)) 0xFAC 0xADA
        (Some 0x11)
      = Inr \<lparr>client = demoNode 7, factoryAddress = 0xFAC, adapterAddress = 0xADA,
             swapCreator = SwapCreator 0x5C, privateKey = 0x11,
             escrowSrcABI = escrowSrcABIJSON, escrowFactoryABI = escrowFactoryABIJSON,
             swapAdapterABI = swapAdapterABIJSON\<rparr>
   \<and> InitializeEscrowClient demoLib (Some \<lparr>Raw = Some (demoNode 7), PrivateKey = Some 0x11\<rparr>)
        (Some (SwapCreator 0x5C)) 0xFAC 0xADA
      = Inr \<lparr>client = demoNode 7, factoryAddress = 0xFAC, adapterAddress = 0xADA,
             swapCreator = SwapCreator 0x5C, privateKey = 0x11,
             escrowSrcABI = escrowSrcABIJSON, escrowFactoryABI = escrowFactoryABIJSON,
             swapAdapterABI = swapAdapterABIJSON\<rparr>
   \<and> (\<exists>e. InitializeEscrowClient demoLib (Some \<lparr>Raw = None, PrivateKey = Some 0x11\<rparr>)
          (Some (SwapCreator 0x5C)) 0xFAC 0xADA = Inl e \<and> (\<forall>m. e \<noteq> Panic m))"
proof -
  have l1: "loadEscrowSrcABI demoLib = Inr escrowSrcABIJSON"
    and l2: "loadEscrowFactoryABI demoLib = Inr escrowFactoryABIJSON"
    and l3: "loadSwapAdapterABI demoLib = Inr swapAdapterABIJSON"
    by (simp_all add: loadEscrowSrcABI_def loadEscrowFactoryABI_def loadSwapAdapterABI_def
        demoLib_def)
  note T1 = client_construction_configuration
    [of "Some (demoNode 7)" "Some (SwapCreator 0x5C)" "Some 0x11" "0xFAC" "0xADA" demoLib
        "Some \<lparr>Raw = Some (demoNode 7), PrivateKey = Some 0x11\<rparr>"]
  note T2 = client_construction_configuration
    [of None "Some (SwapCreator 0x5C)" "Some 0x11" "0xFAC" "0xADA" demoLib
        "Some \<lparr>Raw = None, PrivateKey = Some 0x11\<rparr>"]
  note new_ok = T1 [THEN conjunct2, THEN conjunct1, rule_format]
  note adapter_zero = T1 [THEN conjunct2, THEN conjunct2, THEN conjunct1, rule_format]
  note init_ok = T1 [THEN conjunct2, THEN conjunct2, THEN conjunct2, THEN conjunct2,
      THEN conjunct2, rule_format]
  note new_fails = T2 [THEN conjunct1, rule_format]
  note init_fails = T2 [THEN conjunct2, THEN conjunct2, THEN conjunct2, THEN conjunct2,
      THEN conjunct1, rule_format]
  have w1: "NewXMREscrowClient demoLib (Some (demoNode 7)) (Some (SwapCreator 0x5C))
      0xFAC 0 (Some 0x11) = Inl (ErrorString ''adapter address is required'')"
    by (rule adapter_zero) simp
  have w2: "\<exists>e. NewXMREscrowClient demoLib None (Some (SwapCreator 0x5C)) 0xFAC 0xADA
      (Some 0x11) = Inl e"
    by (rule new_fails) simp
  have w3: "NewXMREscrowClient demoLib (Some (demoNode 7))
      (Some (SwapCreator 0x5C)) 0xFAC 0xADA (Some 0x11)
      = Inr \<lparr>client = demoNode 7, factoryAddress = 0xFAC, adapterAddress = 0xADA,
             swapCreator = SwapCreator 0x5C, privateKey = 0x11,
             escrowSrcABI = escrowSrcABIJSON, escrowFactoryABI = escrowFactoryABIJSON,
             swapAdapterABI = swapAdapterABIJSON\<rparr>"
    by (rule new_ok) (simp add: l1 l2 l3)
  have w4: "InitializeEscrowClient demoLib
        (Some \<lparr>Raw = Some (demoNode 7), PrivateKey = Some 0x11\<rparr>)
        (Some (SwapCreator 0x5C)) 0xFAC 0xADA
      = Inr \<lparr>client = demoNode 7, factoryAddress = 0xFAC, adapterAddress = 0xADA,
             swapCreator = SwapCreator 0x5C, privateKey = 0x11,
             escrowSrcABI = escrowSrcABIJSON, escrowFactoryABI = escrowFactoryABIJSON,
             swapAdapterABI = swapAdapterABIJSON\<rparr>"
    by (rule init_ok [where e' = "\<lparr>Raw = Some (demoNode 7), PrivateKey = Some 0x11\<rparr>"])
      (simp add: l1 l2 l3)
  have w5: "\<exists>e. InitializeEscrowClient demoLib
          (Some \<lparr>Raw = None, PrivateKey = Some 0x11\<rparr>)
          (Some (SwapCreator 0x5C)) 0xFAC 0xADA = Inl e \<and> (\<forall>m. e \<noteq> Panic m)"
    by (rule init_fails) simp
  from w1 w2 w3 w4 w5 show ?thesis by (intro conjI)
qed

lemma InitializeEscrowClient_nil_EthClient:
  assumes "f \<noteq> 0" and "a \<noteq> 0"
  shows "InitializeEscrowClient L None (Some sc) f a
    = Inl (Panic ''invalid memory address or nil pointer dereference'')"
  using assms by (simp add: InitializeEscrowClient_def)

text \<open>
  C3. Construction is to fail with an error whenever the network handle is nil. That
  holds of \<open>NewXMREscrowClient\<close>, and of \<open>InitializeEscrowClient\<close> whenever it is given
  an \<open>EthClient\<close> (above). It does not hold where the \<open>EthClient\<close> itself is nil: with
  the registry and both addresses present, \<open>InitializeEscrowClient\<close> calls
  \<open>ethClient.Raw()\<close> on the nil interface and panics, while \<open>NewXMREscrowClient\<close> on
  a nil handle with the same registry and addresses returns the error
  "ethclient is required".
\<close>

theorem InitializeEscrowClient_nil_EthClient_panics:
  "InitializeEscrowClient demoLib None (Some (SwapCreator 0x5C)) 0xFAC 0xADA
     = Inl (Panic ''invalid memory address or nil pointer dereference'')
   \<and> NewXMREscrowClient demoLib None (Some (SwapCreator 0x5C)) 0xFAC 0xADA (Some 0x11)
     = Inl (ErrorString ''ethclient is required'')"
  by (simp add: InitializeEscrowClient_def NewXMREscrowClient_def)

text \<open>
  C8. The strict loader \<open>GetEscrowAddressesFromEnv\<close> returns an error exactly when one
  of the two variables is empty (as an unset variable is) or, with the \<open>0x\<close> prefix put
  in front where it is missing, is not a well-formed hex address; on success its
  addresses are the parsed values. The fallback loader \<open>GetEscrowAddressesWithFallback\<close>
  has no error result: it returns the strict loader's two addresses when that succeeds
  and the zero address twice when it fails.
\<close>

theorem escrow_address_loaders:
  "(isl (GetEscrowAddressesFromEnv env) \<longleftrightarrow>
      (Getenv env escrowFactoryEnvVar = []
       \<or> \<not> IsHexAddress (ensure0x (Getenv env escrowFactoryEnvVar))
       \<or> Getenv env escrowAdapterEnvVar = []
       \<or> \<not> IsHexAddress (ensure0x (Getenv env escrowAdapterEnvVar))))
   \<and> (env escrowFactoryEnvVar = None \<or> env escrowAdapterEnvVar = None
        \<longrightarrow> isl (GetEscrowAddressesFromEnv env))
   \<and> (\<forall>f a. GetEscrowAddressesFromEnv env = Inr (f, a) \<longrightarrow>
          f = HexToAddress (ensure0x (Getenv env escrowFactoryEnvVar))
        \<and> a = HexToAddress (ensure0x (Getenv env escrowAdapterEnvVar))
        \<and> GetEscrowAddressesWithFallback env = (f, a))
   \<and> (isl (GetEscrowAddressesFromEnv env) \<longrightarrow> GetEscrowAddressesWithFallback env = (0, 0))"
proof (intro conjI)
  show "isl (GetEscrowAddressesFromEnv env) \<longleftrightarrow>
      (Getenv env escrowFactoryEnvVar = []
       \<or> \<not> IsHexAddress (ensure0x (Getenv env escrowFactoryEnvVar))
       \<or> Getenv env escrowAdapterEnvVar = []
       \<or> \<not> IsHexAddress (ensure0x (Getenv env escrowAdapterEnvVar)))"
    by (simp add: GetEscrowAddressesFromEnv_def Let_def ensure0x_def)
next
  show "env escrowFactoryEnvVar = None \<or> env escrowAdapterEnvVar = None
        \<longrightarrow> isl (GetEscrowAddressesFromEnv env)"
    by (auto simp: GetEscrowAddressesFromEnv_def Let_def Getenv_def)
next
  show "\<forall>f a. GetEscrowAddressesFromEnv env = Inr (f, a) \<longrightarrow>
          f = HexToAddress (ensure0x (Getenv env escrowFactoryEnvVar))
        \<and> a = HexToAddress (ensure0x (Getenv env escrowAdapterEnvVar))
        \<and> GetEscrowAddressesWithFallback env = (f, a)"
    by (auto simp: GetEscrowAddressesWithFallback_def GetEscrowAddressesFromEnv_def Let_def
        ensure0x_def split: if_splits)
next
  show "isl (GetEscrowAddressesFromEnv env) \<longrightarrow> GetEscrowAddressesWithFallback env = (0, 0)"
    by (auto simp: GetEscrowAddressesWithFallback_def isl_def)
qed

lemma HexToAddress_example:
  "HexToAddress ''0x5FbDB2315678afecb367f032d93F642f64180aa3''
     = 0x5FbDB2315678afecb367f032d93F642f64180aa3"
  by code_simp

lemma goodEnv_run:
  "GetEscrowAddressesFromEnv goodEnv =
     Inr (0x5FbDB2315678afecb367f032d93F642f64180aa3,
          0xe7f1725E7734CE288F8367e1Bb143E90bb3F0512)"
  by code_simp

lemma badEnv_adapter:
  "\<not> IsHexAddress (ensure0x (Getenv badEnv escrowAdapterEnvVar))"
  by code_simp

theorem escrow_address_loaders_witness:
  "GetEscrowAddressesFromEnv goodEnv =
     Inr (0x5FbDB2315678afecb367f032d93F642f64180aa3,
          0xe7f1725E7734CE288F8367e1Bb143E90bb3F0512)
   \<and> GetEscrowAddressesWithFallback goodEnv =
     (0x5FbDB2315678afecb367f032d93F642f64180aa3, 0xe7f1725E7734CE288F8367e1Bb143E90bb3F0512)
   \<and> isl (GetEscrowAddressesFromEnv badEnv)
   \<and> GetEscrowAddressesWithFallback badEnv = (0, 0)
   \<and> isl (GetEscrowAddressesFromEnv Map.empty)
   \<and> GetEscrowAddressesWithFallback Map.empty = (0, 0)"
proof -
  from escrow_address_loaders [of goodEnv] goodEnv_run
  have w2: "GetEscrowAddressesWithFallback goodEnv =
     (0x5FbDB2315678afecb367f032d93F642f64180aa3, 0xe7f1725E7734CE288F8367e1Bb143E90bb3F0512)"
    by blast
  from escrow_address_loaders [of badEnv] badEnv_adapter
  have w3: "isl (GetEscrowAddressesFromEnv badEnv)" by blast
  with escrow_address_loaders [of badEnv]
  have w4: "GetEscrowAddressesWithFallback badEnv = (0, 0)" by blast
  have "Map.empty escrowFactoryEnvVar = None" by simp
  with escrow_address_loaders [of Map.empty]
  have w5: "isl (GetEscrowAddressesFromEnv Map.empty)" by blast
  with escrow_address_loaders [of Map.empty]
  have w6: "GetEscrowAddressesWithFallback Map.empty = (0, 0)" by blast
  from goodEnv_run w2 w3 w4 w5 w6 show ?thesis by blast
qed

end
